theory Spec2Isabelle
  imports Main "HOL-Library.AList" "HOL-Library.Sublist"
begin

section \<open>The GameBoy server (src/gameboy/index.ts): session, stream and snapshot layer\<close>

text \<open>
  The theory embeds the class \<open>GameBoyEmulator\<close> and the helpers around it. The
  emulation core (the \<open>serverboy\<close> package), the canvas encoder, JSON, the clock and the
  file system are collaborators of the program: the core is represented by the history of
  the calls made to it, the file system by a finite store of nodes, and the remaining
  library functions are fields of an environment record.
\<close>

subsection \<open>JavaScript strings and truthiness\<close>

text \<open>\<open>a || b\<close> on an optional string: \<open>undefined\<close> and the empty string are falsy.\<close>

definition falsy :: "string option \<Rightarrow> bool" where
  "falsy a = (case a of None \<Rightarrow> True | Some s \<Rightarrow> s = [])"

definition or_else :: "string option \<Rightarrow> string \<Rightarrow> string" where
  "or_else a b = (case a of None \<Rightarrow> b | Some s \<Rightarrow> if s = [] then b else s)"

definition or_opt :: "string option \<Rightarrow> string option \<Rightarrow> string option" where
  "or_opt a b = (if falsy a then b else a)"

subsection \<open>The path module (POSIX flavour)\<close>

text \<open>
  \<open>path.join\<close> on segments that need no normalisation, the last component of a path
  (trailing separators ignored), \<open>path.extname\<close> and \<open>path.basename\<close> with a suffix.
  \<open>extname\<close> is empty when the last component has no dot, when its only dot is its first
  character, and when the component is \<open>..\<close>; otherwise it runs from the last dot to the
  end of the component.
\<close>

definition path_join :: "string \<Rightarrow> string \<Rightarrow> string" where
  "path_join a b = a @ ''/'' @ b"

definition last_component :: "string \<Rightarrow> string" where
  "last_component p =
     rev (takeWhile (\<lambda>c. c \<noteq> CHR ''/'') (dropWhile (\<lambda>c. c = CHR ''/'') (rev p)))"

definition extname :: "string \<Rightarrow> string" where
  "extname p =
     (let b = last_component p;
          e = rev (takeWhile (\<lambda>c. c \<noteq> CHR ''.'') (rev b))
      in if CHR ''.'' \<notin> set b then []
         else if length b - length e - 1 = 0 then []
         else if b = ''..'' then []
         else CHR ''.'' # e)"

definition basename :: "string \<Rightarrow> string \<Rightarrow> string" where
  "basename p ext =
     (let b = last_component p
      in if ext \<noteq> [] \<and> length ext \<le> length p
         then (if ext = p then []
               else if suffix ext b \<and> ext \<noteq> b then take (length b - length ext) b
               else b)
         else b)"

subsection \<open>sanitizeGameName\<close>

definition is_alnum :: "char \<Rightarrow> bool" where
  "is_alnum c =
     (let n = (of_char c :: nat)
      in (97 \<le> n \<and> n \<le> 122) \<or> (65 \<le> n \<and> n \<le> 90) \<or> (48 \<le> n \<and> n \<le> 57))"

text \<open>\<open>replace(/[^a-zA-Z0-9]+/g, '-')\<close>: every maximal run of other characters becomes one dash.\<close>

function replace_runs :: "string \<Rightarrow> string" where
  "replace_runs [] = []"
| "replace_runs (c # cs) =
     (if is_alnum c then c # replace_runs cs
      else CHR ''-'' # replace_runs (dropWhile (\<lambda>x. \<not> is_alnum x) cs))"
  by pat_completeness auto
termination
  by (relation "measure length") (auto simp: length_dropWhile_le less_Suc_eq_le)

definition to_lower :: "char \<Rightarrow> char" where
  "to_lower c =
     (let n = (of_char c :: nat) in if 65 \<le> n \<and> n \<le> 90 then char_of (n + 32) else c)"

definition toLowerCase :: "string \<Rightarrow> string" where
  "toLowerCase s = map to_lower s"

text \<open>\<open>replace(/^-|-$/g, '')\<close>: a dash at the start is removed, then a dash at the end.\<close>

definition trim_dashes :: "string \<Rightarrow> string" where
  "trim_dashes s =
     (let s1 = (case s of [] \<Rightarrow> [] | c # cs \<Rightarrow> if c = CHR ''-'' then cs else s)
      in if s1 \<noteq> [] \<and> last s1 = CHR ''-'' then butlast s1 else s1)"

definition sanitizeGameName :: "string \<Rightarrow> string" where
  "sanitizeGameName romPath =
     (let base = basename romPath (extname romPath)
      in trim_dashes (toLowerCase (replace_runs base)))"

subsection \<open>Values exchanged with the collaborators\<close>

datatype json =
    JNull | JBool bool | JNum int | JStr string
  | JArr "json list" | JObj "(string \<times> json) list"

text \<open>
  Exceptions are values: \<open>Error\<close> is \<open>new Error(message)\<close> of the program itself,
  \<open>SystemError\<close> an error of the \<open>fs\<close> module with its code and path, \<open>SyntaxError\<close>
  the error of \<open>JSON.parse\<close>. A result \<open>Inl err\<close> stands for the exception thrown; the
  state reached before the throw is not part of the result.
\<close>

datatype error =
    Error string
  | SystemError string string
  | SyntaxError string

fun message :: "error \<Rightarrow> string" where
  "message (Error m) = m"
| "message (SystemError code p) = code @ '': '' @ p"
| "message (SyntaxError m) = m"

datatype GameBoyButton = UP | DOWN | LEFT | RIGHT | A | B | START | SELECT

text \<open>
  The emulation core is an object of the \<open>serverboy\<close> package. It is deterministic, so
  its state is the sequence of state-changing calls it has received since \<open>new Gameboy()\<close>;
  what \<open>getScreen\<close> and \<open>saveState\<close> return is a function of that sequence, supplied
  by the environment.
\<close>

datatype core_call =
    LoadRom string
  | DoFrame
  | PressKeys "nat list"
  | ReturnFromState json

record env =
  homedir :: string
  STREAM_FPS :: int
  KEYMAP :: "GameBoyButton \<Rightarrow> nat"
  core_getScreen :: "core_call list \<Rightarrow> int list"
  core_saveState :: "core_call list \<Rightarrow> json"
  core_restore_error :: "core_call list \<Rightarrow> json \<Rightarrow> string option"
  canvas_toBuffer :: "nat list \<Rightarrow> string"
  toString_base64 :: "string \<Rightarrow> string"
  JSON_stringify :: "json \<Rightarrow> string"
  JSON_stringify_pretty :: "json \<Rightarrow> string"
  JSON_parse :: "string \<Rightarrow> string + json"
  toISOString :: "int \<Rightarrow> string"
  Date_getTime :: "json option \<Rightarrow> int"


record InstalledGame =
  game_name :: string
  game_romPath :: string
  game_savesDir :: string
  game_installedAt :: string


definition field :: "string \<Rightarrow> json \<Rightarrow> json option" where
  "field k j = (case j of JObj kvs \<Rightarrow> map_of kvs k | _ \<Rightarrow> None)"

subsection \<open>The file system\<close>

text \<open>
  A finite store from paths to nodes. A path exists when it has a node; a file has a
  content and a modification time. The operations look at the node of the path they are
  given: reading or unlinking a missing path is \<open>ENOENT\<close>, reading, writing or unlinking a
  directory is \<open>EISDIR\<close>, listing a file is \<open>ENOTDIR\<close>. Permissions, full disks and
  the existence of parent directories are outside the model.
\<close>

datatype node = File (content: string) (mtime: int) | Dir (mtime: int)

type_synonym fs = "(string \<times> node) list"

definition existsSync :: "fs \<Rightarrow> string \<Rightarrow> bool" where
  "existsSync fs p = (map_of fs p \<noteq> None)"

definition mkdirSync :: "int \<Rightarrow> string \<Rightarrow> fs \<Rightarrow> fs" where
  "mkdirSync now p fs = AList.update p (Dir now) fs"

definition statSync_mtime :: "fs \<Rightarrow> string \<Rightarrow> error + int" where
  "statSync_mtime fs p =
     (case map_of fs p of
        None \<Rightarrow> Inl (SystemError ''ENOENT'' p)
      | Some n \<Rightarrow> Inr (mtime n))"

definition readFileSync :: "fs \<Rightarrow> string \<Rightarrow> error + string" where
  "readFileSync fs p =
     (case map_of fs p of
        None \<Rightarrow> Inl (SystemError ''ENOENT'' p)
      | Some (Dir m) \<Rightarrow> Inl (SystemError ''EISDIR'' p)
      | Some (File c m) \<Rightarrow> Inr c)"

definition writeFileSync :: "int \<Rightarrow> string \<Rightarrow> string \<Rightarrow> fs \<Rightarrow> error + fs" where
  "writeFileSync now p c fs =
     (case map_of fs p of
        Some (Dir m) \<Rightarrow> Inl (SystemError ''EISDIR'' p)
      | _ \<Rightarrow> Inr (AList.update p (File c now) fs))"

definition copyFileSync :: "int \<Rightarrow> string \<Rightarrow> string \<Rightarrow> fs \<Rightarrow> error + fs" where
  "copyFileSync now src dest fs =
     (case readFileSync fs src of
        Inl err \<Rightarrow> Inl err
      | Inr c \<Rightarrow> writeFileSync now dest c fs)"

definition unlinkSync :: "string \<Rightarrow> fs \<Rightarrow> error + fs" where
  "unlinkSync p fs =
     (case map_of fs p of
        None \<Rightarrow> Inl (SystemError ''ENOENT'' p)
      | Some (Dir m) \<Rightarrow> Inl (SystemError ''EISDIR'' p)
      | Some (File c m) \<Rightarrow> Inr (AList.delete p fs))"

definition entries :: "fs \<Rightarrow> string \<Rightarrow> string list" where
  "entries fs d =
     map (drop (length d + 1))
       (filter (\<lambda>p. prefix (d @ ''/'') p \<and> drop (length d + 1) p \<noteq> []
                    \<and> CHR ''/'' \<notin> set (drop (length d + 1) p))
          (map fst fs))"

definition readdirSync :: "fs \<Rightarrow> string \<Rightarrow> error + string list" where
  "readdirSync fs d =
     (case map_of fs d of
        None \<Rightarrow> Inl (SystemError ''ENOENT'' d)
      | Some (File c m) \<Rightarrow> Inl (SystemError ''ENOTDIR'' d)
      | Some (Dir m) \<Rightarrow> Inr (entries fs d))"

text \<open>\<open>ensureDir\<close>: \<open>mkdirSync(dir, { recursive: true })\<close> when the path does not exist.\<close>

definition ensureDir :: "int \<Rightarrow> string \<Rightarrow> fs \<Rightarrow> fs" where
  "ensureDir now dir fs = (if \<not> existsSync fs dir then mkdirSync now dir fs else fs)"

definition GAMEBOY_HOME :: "env \<Rightarrow> string" where
  "GAMEBOY_HOME env = path_join (homedir env) ''.gameboy-mcp''"

definition GAMES_DIR :: "env \<Rightarrow> string" where
  "GAMES_DIR env = path_join (GAMEBOY_HOME env) ''games''"

definition getGameDir :: "env \<Rightarrow> string \<Rightarrow> string" where
  "getGameDir env gameName = path_join (GAMES_DIR env) gameName"

definition getSavesDir :: "env \<Rightarrow> string \<Rightarrow> string" where
  "getSavesDir env gameName = path_join (getGameDir env gameName) ''saves''"

subsection \<open>installRom\<close>

text \<open>
  \<open>now\<close> is the clock at the call: the modification time of what the call writes, and
  (through \<open>toISOString\<close>) the \<open>installedAt\<close> stamp.
\<close>

definition game_json :: "string \<Rightarrow> string \<Rightarrow> string \<Rightarrow> json" where
  "game_json gameName sourcePath installedAt =
     JObj [(''name'', JStr gameName), (''originalPath'', JStr sourcePath),
           (''installedAt'', JStr installedAt)]"

definition copyRomIfNewer :: "int \<Rightarrow> string \<Rightarrow> string \<Rightarrow> fs \<Rightarrow> error + fs" where
  "copyRomIfNewer now sourcePath destRomPath fs =
     (if \<not> existsSync fs destRomPath then copyFileSync now sourcePath destRomPath fs
      else case statSync_mtime fs sourcePath of
             Inl err \<Rightarrow> Inl err
           | Inr ms \<Rightarrow>
               (case statSync_mtime fs destRomPath of
                  Inl err \<Rightarrow> Inl err
                | Inr md \<Rightarrow>
                    if ms > md then copyFileSync now sourcePath destRomPath fs
                    else Inr fs))"

definition installRom ::
    "env \<Rightarrow> int \<Rightarrow> string \<Rightarrow> string option \<Rightarrow> fs \<Rightarrow> error + (InstalledGame \<times> fs)" where
  "installRom env now sourcePath customName fs =
     (if \<not> existsSync fs sourcePath then Inl (Error (''ROM file not found: '' @ sourcePath))
      else
        let gameName = or_else customName (sanitizeGameName sourcePath);
            gameDir = getGameDir env gameName;
            destRomPath = path_join gameDir (''rom'' @ extname sourcePath);
            savesDir = getSavesDir env gameName;
            fs1 = ensureDir now gameDir fs;
            fs2 = ensureDir now savesDir fs1
        in case copyRomIfNewer now sourcePath destRomPath fs2 of
             Inl err \<Rightarrow> Inl err
           | Inr fs3 \<Rightarrow>
               (let metadataPath = path_join gameDir ''game.json'';
                    installedAt = toISOString env now
                in (case writeFileSync now metadataPath
                          (JSON_stringify_pretty env (game_json gameName sourcePath installedAt)) fs3 of
                      Inl err \<Rightarrow> Inl err
                    | Inr fs4 \<Rightarrow>
                        Inr (\<lparr>game_name = gameName, game_romPath = destRomPath,
                              game_savesDir = savesDir, game_installedAt = installedAt\<rparr>, fs4))))"

subsection \<open>The emulator object\<close>

text \<open>
  A stream client is a callback; the set of clients keeps them by identity, in insertion
  order. Whether a callback raises when it is handed a frame is not a property of the
  emulator: the streaming functions take it as the argument \<open>raises\<close>.
\<close>

type_synonym client = nat

record emulator =
  gameboy :: "core_call list"
  canvas :: "nat list"
  romLoaded :: bool
  romPath :: "string option"
  gameName :: "string option"
  streamActive :: bool
  streamClients :: "client list"

text \<open>A blank RGBA image of the given size: four zero bytes for each pixel.\<close>

definition createImageData :: "nat \<Rightarrow> nat \<Rightarrow> nat list" where
  "createImageData w h = replicate (w * h * 4) 0"

definition new_GameBoyEmulator :: emulator where
  "new_GameBoyEmulator =
     \<lparr>gameboy = [], canvas = createImageData 160 144, romLoaded = False,
      romPath = None, gameName = None, streamActive = False, streamClients = []\<rparr>"

definition core_loadRom :: "string \<Rightarrow> core_call list \<Rightarrow> core_call list" where
  "core_loadRom rom h = h @ [LoadRom rom]"

definition core_doFrame :: "core_call list \<Rightarrow> core_call list" where
  "core_doFrame h = h @ [DoFrame]"

definition core_pressKeys :: "nat list \<Rightarrow> core_call list \<Rightarrow> core_call list" where
  "core_pressKeys keys h = h @ [PressKeys keys]"

definition core_returnFromState :: "env \<Rightarrow> json \<Rightarrow> core_call list \<Rightarrow> error + core_call list" where
  "core_returnFromState env state h =
     (case core_restore_error env h state of
        Some m \<Rightarrow> Inl (Error m)
      | None \<Rightarrow> Inr (h @ [ReturnFromState state]))"

text \<open>The tick counter of a session: the number of frames the core has been asked to run.\<close>

definition ticks :: "core_call list \<Rightarrow> nat" where
  "ticks h = length (filter (\<lambda>c. c = DoFrame) h)"

definition loadRom :: "env \<Rightarrow> int \<Rightarrow> string \<Rightarrow> emulator \<Rightarrow> fs \<Rightarrow> error + (emulator \<times> fs)" where
  "loadRom env now romPathOrGameName e fs =
     (let gameDir = getGameDir env romPathOrGameName;
          potentialRomGb = path_join gameDir ''rom.gb'';
          potentialRomGbc = path_join gameDir ''rom.gbc''
      in case (if existsSync fs potentialRomGb then Inr (potentialRomGb, romPathOrGameName, fs)
               else if existsSync fs potentialRomGbc then Inr (potentialRomGbc, romPathOrGameName, fs)
               else if existsSync fs romPathOrGameName
               then (case installRom env now romPathOrGameName None fs of
                       Inl err \<Rightarrow> Inl err
                     | Inr (installed, fs') \<Rightarrow>
                         Inr (game_romPath installed, game_name installed, fs'))
               else Inl (Error (''ROM not found: '' @ romPathOrGameName))) of
           Inl err \<Rightarrow> Inl err
         | Inr (actualRomPath, gname, fs') \<Rightarrow>
             (case readFileSync fs' actualRomPath of
                Inl err \<Rightarrow> Inl err
              | Inr rom \<Rightarrow>
                  Inr (e\<lparr>gameboy := core_loadRom rom (gameboy e), romLoaded := True,
                         romPath := Some actualRomPath, gameName := Some gname\<rparr>, fs')))"

definition getGameName :: "emulator \<Rightarrow> string option" where
  "getGameName e = gameName e"

definition isRomLoaded :: "emulator \<Rightarrow> bool" where
  "isRomLoaded e = romLoaded e"

text \<open>
  \<open>pressButton\<close>: \<open>durationFrames\<close> rounds of \<open>pressKeys\<close> and \<open>doFrame\<close>, then one more
  \<open>doFrame\<close>. The loop \<open>for (i = 0; i < durationFrames; i++)\<close> runs \<open>nat durationFrames\<close>
  times for an integer bound.
\<close>

primrec press_loop :: "nat \<Rightarrow> nat \<Rightarrow> core_call list \<Rightarrow> core_call list" where
  "press_loop 0 key g = g"
| "press_loop (Suc n) key g = press_loop n key (core_doFrame (core_pressKeys [key] g))"

definition pressButton :: "env \<Rightarrow> GameBoyButton \<Rightarrow> int \<Rightarrow> emulator \<Rightarrow> error + emulator" where
  "pressButton env button durationFrames e =
     (if \<not> romLoaded e then Inl (Error ''No ROM loaded'')
      else Inr (e\<lparr>gameboy :=
                   core_doFrame (press_loop (nat durationFrames) (KEYMAP env button) (gameboy e))\<rparr>))"

definition doFrame :: "emulator \<Rightarrow> error + emulator" where
  "doFrame e =
     (if \<not> romLoaded e then Inl (Error ''No ROM loaded'')
      else Inr (e\<lparr>gameboy := core_doFrame (gameboy e)\<rparr>))"

text \<open>
  \<open>getScreenAsBuffer\<close> copies the core's screen into a fresh 160 x 144 RGBA image (a
  clamped byte array: a write past its end is dropped), puts it on the canvas and encodes
  the canvas.
\<close>

definition clamp8 :: "int \<Rightarrow> nat" where
  "clamp8 v = nat (max 0 (min 255 v))"

fun copy_pixels :: "nat \<Rightarrow> int list \<Rightarrow> nat list \<Rightarrow> nat list" where
  "copy_pixels i [] data = data"
| "copy_pixels i (v # vs) data = copy_pixels (Suc i) vs (data[i := clamp8 v])"

definition getScreenAsBuffer :: "env \<Rightarrow> emulator \<Rightarrow> error + (string \<times> emulator)" where
  "getScreenAsBuffer env e =
     (if \<not> romLoaded e then Inl (Error ''No ROM loaded'')
      else
        let screenData = core_getScreen env (gameboy e);
            imageData = copy_pixels 0 screenData (createImageData 160 144);
            e' = e\<lparr>canvas := imageData\<rparr>
        in Inr (canvas_toBuffer env (canvas e'), e'))"

definition getScreenAsBase64 :: "env \<Rightarrow> emulator \<Rightarrow> error + (string \<times> emulator)" where
  "getScreenAsBase64 env e =
     (case getScreenAsBuffer env e of
        Inl err \<Rightarrow> Inl err
      | Inr (buf, e') \<Rightarrow> Inr (toString_base64 env buf, e'))"

subsection \<open>Save states\<close>


definition loadState :: "env \<Rightarrow> string \<Rightarrow> emulator \<Rightarrow> fs \<Rightarrow> error + (json \<times> emulator)" where
  "loadState env stateId e fs =
     (case gameName e of
        None \<Rightarrow> Inl (Error ''No ROM loaded'')
      | Some g \<Rightarrow>
          if \<not> romLoaded e \<or> g = [] then Inl (Error ''No ROM loaded'')
          else
            let savesDir = getSavesDir env g;
                stateFile = path_join savesDir (stateId @ ''.state.json'');
                metadataFile = path_join savesDir (stateId @ ''.meta.json'')
            in if \<not> existsSync fs stateFile
               then Inl (Error (''Save state not found: '' @ stateId))
               else
                 (case readFileSync fs stateFile of
                    Inl err \<Rightarrow> Inl err
                  | Inr stateText \<Rightarrow>
                      (case JSON_parse env stateText of
                         Inl m \<Rightarrow> Inl (SyntaxError m)
                       | Inr state \<Rightarrow>
                           (case readFileSync fs metadataFile of
                              Inl err \<Rightarrow> Inl err
                            | Inr metaText \<Rightarrow>
                                (case JSON_parse env metaText of
                                   Inl m \<Rightarrow> Inl (SyntaxError m)
                                 | Inr metadata \<Rightarrow>
                                     (case core_returnFromState env state (gameboy e) of
                                        Inl err \<Rightarrow> Inl err
                                      | Inr g' \<Rightarrow> Inr (metadata, e\<lparr>gameboy := g'\<rparr>)))))))"

fun read_metas :: "env \<Rightarrow> fs \<Rightarrow> string \<Rightarrow> string list \<Rightarrow> error + json list" where
  "read_metas env fs dir [] = Inr []"
| "read_metas env fs dir (f # rest) =
     (case readFileSync fs (path_join dir f) of
        Inl err \<Rightarrow> Inl err
      | Inr text \<Rightarrow>
          (case JSON_parse env text of
             Inl m \<Rightarrow> Inl (SyntaxError m)
           | Inr j \<Rightarrow>
               (case read_metas env fs dir rest of
                  Inl err \<Rightarrow> Inl err
                | Inr js \<Rightarrow> Inr (j # js))))"

text \<open>
  The comparator \<open>getTime(b) - getTime(a)\<close> with the stable \<open>Array.prototype.sort\<close>:
  newest first, equal stamps in directory order.
\<close>

definition listStates :: "env \<Rightarrow> string option \<Rightarrow> emulator \<Rightarrow> fs \<Rightarrow> error + json list" where
  "listStates env game e fs =
     (case or_opt game (gameName e) of
        None \<Rightarrow> Inr []
      | Some targetGame \<Rightarrow>
          if targetGame = [] then Inr []
          else
            let savesDir = getSavesDir env targetGame
            in if \<not> existsSync fs savesDir then Inr []
               else
                 (case readdirSync fs savesDir of
                    Inl err \<Rightarrow> Inl err
                  | Inr names \<Rightarrow>
                      (let metaFiles = filter (\<lambda>f. suffix ''.meta.json'' f) names
                       in (case read_metas env fs savesDir metaFiles of
                             Inl err \<Rightarrow> Inl err
                           | Inr ms \<Rightarrow>
                               Inr (sort_key (\<lambda>m. - Date_getTime env (field ''timestamp'' m)) ms)))))"

definition deleteState ::
    "env \<Rightarrow> string \<Rightarrow> string option \<Rightarrow> emulator \<Rightarrow> fs \<Rightarrow> error + (bool \<times> fs)" where
  "deleteState env stateId game e fs =
     (case or_opt game (gameName e) of
        None \<Rightarrow> Inr (False, fs)
      | Some targetGame \<Rightarrow>
          if targetGame = [] then Inr (False, fs)
          else
            let savesDir = getSavesDir env targetGame;
                stateFile = path_join savesDir (stateId @ ''.state.json'');
                metadataFile = path_join savesDir (stateId @ ''.meta.json'')
            in (case (if existsSync fs stateFile
                      then (case unlinkSync stateFile fs of
                              Inl err \<Rightarrow> Inl err
                            | Inr fs1 \<Rightarrow> Inr (True, fs1))
                      else Inr (False, fs)) of
                  Inl err \<Rightarrow> Inl err
                | Inr (deleted, fs1) \<Rightarrow>
                    (if existsSync fs1 metadataFile
                     then (case unlinkSync metadataFile fs1 of
                             Inl err \<Rightarrow> Inl err
                           | Inr fs2 \<Rightarrow> Inr (True, fs2))
                     else Inr (deleted, fs1))))"

subsection \<open>Streaming\<close>

text \<open>
  One firing of the timer callback \<open>tick\<close> inside \<open>runStreamLoop\<close>. It returns the
  emulator, the frames handed to callbacks that returned normally (in order), and the delay
  of the next firing when one is scheduled. \<open>Math.ceil(60 / STREAM_FPS)\<close> is infinite for
  \<open>STREAM_FPS = 0\<close>: the frame loop then never ends, which is the outcome \<open>Diverges\<close>.
\<close>

datatype 'a outcome = Returns 'a | Throws error | Diverges

definition stopStream :: "emulator \<Rightarrow> emulator" where
  "stopStream e = e\<lparr>streamActive := False, streamClients := []\<rparr>"

definition isStreamActive :: "emulator \<Rightarrow> bool" where
  "isStreamActive e = streamActive e"

definition addStreamClient :: "client \<Rightarrow> emulator \<Rightarrow> emulator" where
  "addStreamClient callback e =
     e\<lparr>streamClients :=
         (if callback \<in> set (streamClients e) then streamClients e
          else streamClients e @ [callback])\<rparr>"

text \<open>The function \<open>addStreamClient\<close> returns: \<open>() => this.streamClients.delete(callback)\<close>.\<close>

definition unsubscribe :: "client \<Rightarrow> emulator \<Rightarrow> emulator" where
  "unsubscribe callback e = e\<lparr>streamClients := removeAll callback (streamClients e)\<rparr>"

definition framesToAdvance :: "int \<Rightarrow> nat option" where
  "framesToAdvance fps = (if fps = 0 then None else Some (nat (- ((- 60) div fps))))"

primrec frame_loop :: "nat \<Rightarrow> core_call list \<Rightarrow> core_call list" where
  "frame_loop 0 g = g"
| "frame_loop (Suc n) g = frame_loop n (core_doFrame g)"

text \<open>
  The loop over the set of clients: the clients still to visit, and the set as it stands.
  Deleting the client just visited does not disturb the iteration. A callback is handed
  the frame and returns or raises; it does not itself subscribe or unsubscribe anybody.
\<close>

fun broadcast ::
    "(client \<Rightarrow> string \<Rightarrow> bool) \<Rightarrow> string \<Rightarrow> client list \<Rightarrow> client list
      \<Rightarrow> client list \<times> (client \<times> string) list" where
  "broadcast raises frame [] clients = (clients, [])"
| "broadcast raises frame (c # cs) clients =
     (if raises c frame then broadcast raises frame cs (removeAll c clients)
      else (case broadcast raises frame cs clients of
              (clients', out) \<Rightarrow> (clients', (c, frame) # out)))"

definition tick ::
    "env \<Rightarrow> (client \<Rightarrow> string \<Rightarrow> bool) \<Rightarrow> emulator
      \<Rightarrow> (emulator \<times> (client \<times> string) list \<times> int option) outcome" where
  "tick env raises e =
     (if \<not> streamActive e \<or> \<not> romLoaded e then Returns (e, [], None)
      else
        (case framesToAdvance (STREAM_FPS env) of
           None \<Rightarrow> Diverges
         | Some n \<Rightarrow>
             (let e1 = e\<lparr>gameboy := frame_loop n (gameboy e)\<rparr>;
                  frameInterval = 1000 div STREAM_FPS env
              in if length (streamClients e1) > 0
                 then (case getScreenAsBuffer env e1 of
                         Inl err \<Rightarrow> Throws err
                       | Inr (frame, e2) \<Rightarrow>
                           (case broadcast raises frame (streamClients e2) (streamClients e2) of
                              (clients, out) \<Rightarrow>
                                Returns (e2\<lparr>streamClients := clients\<rparr>, out, Some frameInterval)))
                 else Returns (e1, [], Some frameInterval))))"

definition runStreamLoop ::
    "env \<Rightarrow> (client \<Rightarrow> string \<Rightarrow> bool) \<Rightarrow> emulator
      \<Rightarrow> (emulator \<times> (client \<times> string) list \<times> int option) outcome" where
  "runStreamLoop env raises e =
     (if \<not> streamActive e \<or> \<not> romLoaded e then Returns (e, [], None)
      else tick env raises e)"

definition startStream ::
    "env \<Rightarrow> (client \<Rightarrow> string \<Rightarrow> bool) \<Rightarrow> emulator
      \<Rightarrow> (emulator \<times> (client \<times> string) list \<times> int option) outcome" where
  "startStream env raises e =
     (if streamActive e then Returns (e, [], None)
      else runStreamLoop env raises (e\<lparr>streamActive := True\<rparr>))"

subsection \<open>Tool helpers and the get_screen handler\<close>

datatype content = ImageContent string string | TextContent string

record tool_response =
  response_content :: "content list"
  isError :: bool

definition getScreen :: "env \<Rightarrow> emulator \<Rightarrow> error + (content \<times> emulator)" where
  "getScreen env e =
     (case getScreenAsBase64 env e of
        Inl err \<Rightarrow> Inl err
      | Inr (d, e') \<Rightarrow> Inr (ImageContent d ''image/png'', e'))"

primrec advanceFrames :: "nat \<Rightarrow> emulator \<Rightarrow> error + emulator" where
  "advanceFrames 0 e = Inr e"
| "advanceFrames (Suc n) e =
     (case doFrame e of Inl err \<Rightarrow> Inl err | Inr e' \<Rightarrow> advanceFrames n e')"

text \<open>The helper \<open>pressButton(button, durationFrames)\<close> of the tool layer.\<close>

definition tool_pressButton ::
    "env \<Rightarrow> GameBoyButton \<Rightarrow> int \<Rightarrow> emulator \<Rightarrow> error + (content \<times> emulator)" where
  "tool_pressButton env button durationFrames e =
     (if \<not> isRomLoaded e then Inl (Error ''No ROM loaded'')
      else (case pressButton env button durationFrames e of
              Inl err \<Rightarrow> Inl err
            | Inr e1 \<Rightarrow> getScreen env e1))"

definition waitFrames :: "env \<Rightarrow> int \<Rightarrow> emulator \<Rightarrow> error + (content \<times> emulator)" where
  "waitFrames env frames e =
     (if \<not> isRomLoaded e then Inl (Error ''No ROM loaded'')
      else (case advanceFrames (nat frames) e of
              Inl err \<Rightarrow> Inl err
            | Inr e1 \<Rightarrow> getScreen env e1))"

text \<open>The \<open>catch\<close> of the tool handler turns an exception into an error response.\<close>

definition error_response :: "error \<Rightarrow> tool_response" where
  "error_response err =
     \<lparr>response_content = [TextContent (''Error: '' @ message err)], isError = True\<rparr>"

definition handle_get_screen :: "env \<Rightarrow> emulator \<Rightarrow> tool_response \<times> emulator" where
  "handle_get_screen env e =
     (if \<not> isRomLoaded e
      then (\<lparr>response_content = [TextContent ''Error: No ROM loaded''], isError = True\<rparr>, e)
      else (case doFrame e of
              Inl err \<Rightarrow> (error_response err, e)
            | Inr e1 \<Rightarrow>
                (case getScreen env e1 of
                   Inl err \<Rightarrow> (error_response err, e1)
                 | Inr (screen, e2) \<Rightarrow>
                     (\<lparr>response_content = [screen], isError = False\<rparr>, e2))))"

subsection \<open>Notions used in the statements\<close>

text \<open>The encoded frame \<open>getScreenAsBuffer\<close> produces for a core with the given history.\<close>

definition rendered :: "env \<Rightarrow> core_call list \<Rightarrow> string" where
  "rendered env g =
     canvas_toBuffer env (copy_pixels 0 (core_getScreen env g) (createImageData 160 144))"

definition never_raises :: "client \<Rightarrow> string \<Rightarrow> bool" where
  "never_raises c frame = False"

text \<open>A callback behaviour in which exactly the client \<open>bad\<close> raises.\<close>

definition only_raises :: "client \<Rightarrow> client \<Rightarrow> string \<Rightarrow> bool" where
  "only_raises bad c frame = (c = bad)"

text \<open>
  The id the specification describes for an installed title: the extension stripped, every
  run of non-alphanumeric characters replaced by one separator, lower-cased.
\<close>

definition spec_sanitized_id :: "string \<Rightarrow> string" where
  "spec_sanitized_id p = toLowerCase (replace_runs (basename p (extname p)))"

definition is_id_char :: "char \<Rightarrow> bool" where
  "is_id_char c =
     (let n = (of_char c :: nat)
      in (97 \<le> n \<and> n \<le> 122) \<or> (48 \<le> n \<and> n \<le> 57) \<or> c = CHR ''-'')"

fun no_double_dash :: "string \<Rightarrow> bool" where
  "no_double_dash (a # b # cs) = (\<not> (a = CHR ''-'' \<and> b = CHR ''-'') \<and> no_double_dash (b # cs))"
| "no_double_dash cs = True"

definition dash_at_end :: "string \<Rightarrow> bool" where
  "dash_at_end s = (s \<noteq> [] \<and> (hd s = CHR ''-'' \<or> last s = CHR ''-''))"

text \<open>
  The two artifacts of a save state, whether a path holds a directory, what a caller can
  read from an artifact (its parsed JSON, when the file is there and parses), and the
  errors that say that something was not found.
\<close>

definition isDirectory :: "fs \<Rightarrow> string \<Rightarrow> bool" where
  "isDirectory fs p = (case map_of fs p of Some (Dir m) \<Rightarrow> True | _ \<Rightarrow> False)"

definition stateFile_of :: "env \<Rightarrow> string \<Rightarrow> string \<Rightarrow> string" where
  "stateFile_of env g stateId = path_join (getSavesDir env g) (stateId @ ''.state.json'')"

definition metadataFile_of :: "env \<Rightarrow> string \<Rightarrow> string \<Rightarrow> string" where
  "metadataFile_of env g stateId = path_join (getSavesDir env g) (stateId @ ''.meta.json'')"

definition readable_json :: "env \<Rightarrow> fs \<Rightarrow> string \<Rightarrow> json option" where
  "readable_json env fs p =
     (case readFileSync fs p of
        Inl err \<Rightarrow> None
      | Inr text \<Rightarrow> (case JSON_parse env text of Inl m \<Rightarrow> None | Inr j \<Rightarrow> Some j))"

definition not_found_kind :: "error \<Rightarrow> bool" where
  "not_found_kind err =
     (case err of
        Error m \<Rightarrow> prefix ''Save state not found'' m
      | SystemError code p \<Rightarrow> code = ''ENOENT''
      | SyntaxError m \<Rightarrow> False)"

text \<open>
  The paths \<open>installRom\<close> writes for a game, and the condition under which it copies the
  ROM: there is no destination, or the source is strictly newer than the destination.
\<close>

definition needsCopy :: "fs \<Rightarrow> string \<Rightarrow> string \<Rightarrow> bool" where
  "needsCopy fs sourcePath destRomPath =
     (\<not> existsSync fs destRomPath
      \<or> (case (map_of fs sourcePath, map_of fs destRomPath) of
            (Some a, Some b) \<Rightarrow> mtime a > mtime b
          | _ \<Rightarrow> False))"

definition destRomPath_of :: "env \<Rightarrow> string \<Rightarrow> string \<Rightarrow> string" where
  "destRomPath_of env g sourcePath = path_join (getGameDir env g) (''rom'' @ extname sourcePath)"

definition metadataPath_of :: "env \<Rightarrow> string \<Rightarrow> string" where
  "metadataPath_of env g = path_join (getGameDir env g) ''game.json''"

subsection \<open>An environment and a session for concrete runs\<close>

text \<open>
  A small core whose screen shows a frame counter and whose exported state is that counter;
  restoring a state sets the counter. JSON texts are a run of \<open>1\<close>s for a number and
  \<open>{}\<close> for anything else.
\<close>

fun counter_core :: "core_call list \<Rightarrow> int \<Rightarrow> int" where
  "counter_core [] n = n"
| "counter_core (LoadRom r # h) n = counter_core h 0"
| "counter_core (DoFrame # h) n = counter_core h (n + 1)"
| "counter_core (PressKeys ks # h) n = counter_core h n"
| "counter_core (ReturnFromState (JNum k) # h) n = counter_core h k"
| "counter_core (ReturnFromState j # h) n = counter_core h n"

definition example_env :: env where
  "example_env =
     \<lparr>homedir = ''/h'', STREAM_FPS = 15,
      KEYMAP = (\<lambda>b. case b of RIGHT \<Rightarrow> 0 | LEFT \<Rightarrow> 1 | UP \<Rightarrow> 2 | DOWN \<Rightarrow> 3
                        | A \<Rightarrow> 4 | B \<Rightarrow> 5 | SELECT \<Rightarrow> 6 | START \<Rightarrow> 7),
      core_getScreen = (\<lambda>h. [counter_core h 0]),
      core_saveState = (\<lambda>h. JNum (counter_core h 0)),
      core_restore_error = (\<lambda>h j. case j of JNum k \<Rightarrow> None | _ \<Rightarrow> Some ''bad state''),
      canvas_toBuffer = (\<lambda>d. map char_of (take 4 d)),
      toString_base64 = (\<lambda>s. s),
      JSON_stringify = (\<lambda>j. case j of JNum k \<Rightarrow> replicate (nat k) (CHR ''1'') | _ \<Rightarrow> ''{}''),
      JSON_stringify_pretty =
        (\<lambda>j. case j of JNum k \<Rightarrow> replicate (nat k) (CHR ''1'') | _ \<Rightarrow> ''{}''),
      JSON_parse =
        (\<lambda>s. if s = ''{}'' then Inr (JObj [])
              else if list_all (\<lambda>c. c = CHR ''1'') s then Inr (JNum (int (length s)))
              else Inl ''Unexpected token''),
      toISOString = (\<lambda>t. ''t''),
      Date_getTime = (\<lambda>j. 0)\<rparr>"

definition example_session :: emulator where
  "example_session =
     new_GameBoyEmulator\<lparr>gameboy := [LoadRom ''rom''], romLoaded := True,
                         romPath := Some ''/h/.gameboy-mcp/games/g/rom.gb'',
                         gameName := Some ''g''\<rparr>"

text \<open>
  Stores for concrete runs: the saves of the game \<open>g\<close> with one save state, the same
  with a state file that is not JSON, the same with a directory in the place of the state
  file; and a session two frames into the game.
\<close>

definition example_saves :: fs where
  "example_saves =
     [(''/h/.gameboy-mcp/games/g/saves'', Dir 1),
      (''/h/.gameboy-mcp/games/g/saves/ab12cd34.state.json'', File ''11'' 7),
      (''/h/.gameboy-mcp/games/g/saves/ab12cd34.meta.json'', File ''{}'' 7)]"

definition example_corrupt_saves :: fs where
  "example_corrupt_saves =
     [(''/h/.gameboy-mcp/games/g/saves'', Dir 1),
      (''/h/.gameboy-mcp/games/g/saves/ab12cd34.state.json'', File ''x'' 7),
      (''/h/.gameboy-mcp/games/g/saves/ab12cd34.meta.json'', File ''{}'' 7)]"

definition example_directory_saves :: fs where
  "example_directory_saves =
     [(''/h/.gameboy-mcp/games/g/saves'', Dir 1),
      (''/h/.gameboy-mcp/games/g/saves/ab12cd34.state.json'', Dir 7),
      (''/h/.gameboy-mcp/games/g/saves/ab12cd34.meta.json'', File ''{}'' 7)]"


section \<open>Verified properties\<close>

subsection \<open>Loops and frame reads\<close>

lemma frame_loop_append: "frame_loop n g = g @ replicate n DoFrame"
  by (induction n arbitrary: g) (simp_all add: core_doFrame_def replicate_app_Cons_same)

lemma press_loop_append:
  "press_loop n key g = g @ concat (replicate n [PressKeys [key], DoFrame])"
  by (induction n arbitrary: g) (simp_all add: core_doFrame_def core_pressKeys_def)

lemma ticks_append: "ticks (g @ h) = ticks g + ticks h"
  by (simp add: ticks_def)

lemma ticks_replicate_DoFrame: "ticks (replicate n DoFrame) = n"
  by (induction n) (simp_all add: ticks_def)

lemma ticks_presses: "ticks (concat (replicate n [PressKeys ks, DoFrame])) = n"
  by (induction n) (simp_all add: ticks_def)

lemma replicate_4: "replicate 4 x = [x, x, x, x]"
  by (simp add: numeral_eq_Suc)

lemma getScreenAsBuffer_loaded:
  "romLoaded e \<Longrightarrow>
   getScreenAsBuffer env e =
     Inr (rendered env (gameboy e),
          e\<lparr>canvas := copy_pixels 0 (core_getScreen env (gameboy e)) (createImageData 160 144)\<rparr>)"
  by (simp add: getScreenAsBuffer_def rendered_def Let_def)

lemma getScreen_loaded:
  "romLoaded e \<Longrightarrow>
   getScreen env e =
     Inr (ImageContent (toString_base64 env (rendered env (gameboy e))) ''image/png'',
          e\<lparr>canvas := copy_pixels 0 (core_getScreen env (gameboy e)) (createImageData 160 144)\<rparr>)"
  by (simp add: getScreen_def getScreenAsBase64_def getScreenAsBuffer_loaded)

text \<open>
  For a positive rate the number of frames per firing is the ceiling of \<open>60 / STREAM_FPS\<close>:
  the least \<open>n\<close> with \<open>60 \<le> n * STREAM_FPS\<close>.
\<close>

lemma framesToAdvance_ceiling:
  assumes "0 < fps" "framesToAdvance fps = Some n"
  shows "60 \<le> int n * fps \<and> (int n - 1) * fps < 60"
proof -
  define q where "q = (- 60) div fps"
  define r where "r = (- 60) mod fps"
  have eq: "q * fps + r = - 60"
    unfolding q_def r_def by simp
  have r: "0 \<le> r" "r < fps"
    using assms(1) by (simp_all add: r_def)
  have "q < 0"
    unfolding q_def using assms(1) by (simp add: div_neg_pos_less0)
  moreover have "n = nat (- q)"
    using assms by (simp add: framesToAdvance_def q_def split: if_splits)
  ultimately have n: "int n = - q" by simp
  have "int n * fps = 60 + r"
    using eq by (simp add: n algebra_simps)
  moreover have "(int n - 1) * fps = 60 + r - fps"
    using eq by (simp add: n algebra_simps)
  ultimately show ?thesis using r by simp
qed

lemma framesToAdvance_example: "framesToAdvance (STREAM_FPS example_env) = Some 4"
  by (simp add: framesToAdvance_def example_env_def)

subsection \<open>The broadcast loop\<close>

lemma broadcast_eq:
  "broadcast raises frame cs clients =
     (filter (\<lambda>c. \<not> (c \<in> set cs \<and> raises c frame)) clients,
      map (\<lambda>c. (c, frame)) (filter (\<lambda>c. \<not> raises c frame) cs))"
proof (induction cs arbitrary: clients)
  case Nil
  show ?case by simp
next
  case (Cons c cs)
  show ?case
  proof (cases "raises c frame")
    case True
    have "filter (\<lambda>x. \<not> (x \<in> set cs \<and> raises x frame)) (removeAll c clients)
          = filter (\<lambda>x. \<not> (x \<in> set (c # cs) \<and> raises x frame)) clients"
      using True by (induction clients) auto
    with True Cons show ?thesis by simp
  next
    case False
    have "filter (\<lambda>x. \<not> (x \<in> set cs \<and> raises x frame)) clients
          = filter (\<lambda>x. \<not> (x \<in> set (c # cs) \<and> raises x frame)) clients"
      using False by (induction clients) auto
    with False Cons show ?thesis by simp
  qed
qed

lemma broadcast_self:
  "broadcast raises frame cs cs =
     (filter (\<lambda>c. \<not> raises c frame) cs,
      map (\<lambda>c. (c, frame)) (filter (\<lambda>c. \<not> raises c frame) cs))"
proof -
  have "filter (\<lambda>c. \<not> (c \<in> set cs \<and> raises c frame)) cs = filter (\<lambda>c. \<not> raises c frame) cs"
    by (rule filter_cong) auto
  then show ?thesis by (simp add: broadcast_eq)
qed

text \<open>What one firing of the timer does when the stream is active and a ROM is loaded.\<close>

lemma tick_returns:
  assumes "streamActive e" "romLoaded e" "framesToAdvance (STREAM_FPS env) = Some n"
  shows "tick env raises e =
     (if streamClients e = []
      then Returns (e\<lparr>gameboy := gameboy e @ replicate n DoFrame\<rparr>, [],
                    Some (1000 div STREAM_FPS env))
      else Returns
        (e\<lparr>gameboy := gameboy e @ replicate n DoFrame,
           canvas := copy_pixels 0 (core_getScreen env (gameboy e @ replicate n DoFrame))
                       (createImageData 160 144),
           streamClients :=
             filter (\<lambda>c. \<not> raises c (rendered env (gameboy e @ replicate n DoFrame)))
               (streamClients e)\<rparr>,
         map (\<lambda>c. (c, rendered env (gameboy e @ replicate n DoFrame)))
           (filter (\<lambda>c. \<not> raises c (rendered env (gameboy e @ replicate n DoFrame)))
              (streamClients e)),
         Some (1000 div STREAM_FPS env)))"
  using assms
  by (simp add: tick_def Let_def frame_loop_append getScreenAsBuffer_loaded broadcast_self)

lemma tick_zero_rate_diverges:
  "streamActive e \<Longrightarrow> romLoaded e \<Longrightarrow> STREAM_FPS env = 0 \<Longrightarrow> tick env raises e = Diverges"
  by (simp add: tick_def framesToAdvance_def)

subsection \<open>Claim C1: a firing of the stream timer with no subscriber\<close>

text \<open>
  C1 says that a firing with an empty set of subscribers does not advance the clock. The
  timer callback runs its frame loop before it looks at the subscribers, so the claim fails:
  in the session below (ROM loaded, stream active, nobody subscribed, 15 frames per second)
  one firing takes the tick counter from 0 to 4.
\<close>

theorem C1_empty_tick_advances_counterexample:
  "tick example_env never_raises (example_session\<lparr>streamActive := True\<rparr>)
     = Returns (example_session\<lparr>streamActive := True,
          gameboy := [LoadRom ''rom'', DoFrame, DoFrame, DoFrame, DoFrame]\<rparr>, [], Some 66)
   \<and> streamClients (example_session\<lparr>streamActive := True\<rparr>) = []
   \<and> ticks (gameboy (example_session\<lparr>streamActive := True\<rparr>)) = 0
   \<and> ticks [LoadRom ''rom'', DoFrame, DoFrame, DoFrame, DoFrame] = 4"
  by (simp add: tick_def example_env_def example_session_def new_GameBoyEmulator_def
      framesToAdvance_def ticks_def frame_loop_append replicate_4)

text \<open>
  C1 as amended: every firing while the stream is active and a ROM is loaded (and the rate
  is not zero) returns and advances the clock by the \<open>n\<close> frames of one interval, the
  ceiling of \<open>60 / STREAM_FPS\<close>, whether or not anybody is subscribed; with no subscriber
  no frame is rendered or delivered: the canvas and the subscriber set stay as they were.
\<close>

theorem C1_tick_advances_regardless_of_subscribers:
  assumes "streamActive e" "romLoaded e" "framesToAdvance (STREAM_FPS env) = Some n"
  shows "\<exists>e' out d. tick env raises e = Returns (e', out, d)
          \<and> gameboy e' = gameboy e @ replicate n DoFrame
          \<and> ticks (gameboy e') = ticks (gameboy e) + n
          \<and> (streamClients e = [] \<longrightarrow> out = [] \<and> canvas e' = canvas e \<and> streamClients e' = [])"
  using assms by (simp add: tick_returns ticks_append ticks_replicate_DoFrame)

theorem C1_tick_advances_regardless_of_subscribers_witness:
  "streamActive (example_session\<lparr>streamActive := True\<rparr>)
   \<and> romLoaded (example_session\<lparr>streamActive := True\<rparr>)
   \<and> framesToAdvance (STREAM_FPS example_env) = Some 4
   \<and> streamClients (example_session\<lparr>streamActive := True\<rparr>) = []
   \<and> (\<exists>e' out d.
        tick example_env never_raises (example_session\<lparr>streamActive := True\<rparr>) = Returns (e', out, d)
        \<and> gameboy e' = [LoadRom ''rom''] @ replicate 4 DoFrame
        \<and> ticks (gameboy e') = ticks [LoadRom ''rom''] + 4
        \<and> out = [] \<and> streamClients e' = [])"
proof -
  have h: "streamActive (example_session\<lparr>streamActive := True\<rparr>)"
    "romLoaded (example_session\<lparr>streamActive := True\<rparr>)"
    "streamClients (example_session\<lparr>streamActive := True\<rparr>) = []"
    "gameboy (example_session\<lparr>streamActive := True\<rparr>) = [LoadRom ''rom'']"
    by (simp_all add: example_session_def new_GameBoyEmulator_def)
  from C1_tick_advances_regardless_of_subscribers
         [OF h(1) h(2) framesToAdvance_example, of never_raises]
  show ?thesis
    using h framesToAdvance_example by auto
qed

subsection \<open>Claim C2: reading the screen through the get_screen tool\<close>

text \<open>
  C2 says that reading the current frame in the Loaded state leaves the simulation
  unchanged. The \<open>get_screen\<close> handler calls \<open>emulator.doFrame()\<close> before it reads the
  frame (its tool description says: advances one frame), so the claim fails: in the loaded
  session below the handler takes the tick counter from 0 to 1.
\<close>

theorem C2_get_screen_advances_counterexample:
  "romLoaded example_session
   \<and> gameboy example_session = [LoadRom ''rom'']
   \<and> gameboy (snd (handle_get_screen example_env example_session)) = [LoadRom ''rom'', DoFrame]
   \<and> ticks [LoadRom ''rom''] = 0
   \<and> ticks [LoadRom ''rom'', DoFrame] = 1"
  by (simp add: handle_get_screen_def isRomLoaded_def doFrame_def getScreen_loaded
      core_doFrame_def example_session_def ticks_def)

text \<open>
  C2 as amended: in the Loaded state \<open>get_screen\<close> runs exactly one frame and answers with
  the frame of the state it reaches; the read that follows the frame (\<open>getScreen\<close>) leaves
  the core, and so the tick counter, as it finds them.
\<close>

theorem C2_get_screen_runs_one_frame_then_reads:
  assumes "romLoaded e"
  shows "\<exists>e1 e2.
           doFrame e = Inr e1
         \<and> handle_get_screen env e =
             (\<lparr>response_content =
                 [ImageContent (toString_base64 env (rendered env (gameboy e @ [DoFrame])))
                    ''image/png''],
               isError = False\<rparr>, e2)
         \<and> gameboy e2 = gameboy e @ [DoFrame]
         \<and> ticks (gameboy e2) = ticks (gameboy e) + 1
         \<and> getScreen env e1 =
             Inr (ImageContent (toString_base64 env (rendered env (gameboy e1))) ''image/png'', e2)
         \<and> gameboy e2 = gameboy e1"
  using assms
  by (simp add: handle_get_screen_def isRomLoaded_def doFrame_def getScreen_loaded
      core_doFrame_def ticks_def)

theorem C2_get_screen_runs_one_frame_then_reads_witness:
  "romLoaded example_session
   \<and> (\<exists>e1 e2.
           doFrame example_session = Inr e1
         \<and> handle_get_screen example_env example_session =
             (\<lparr>response_content =
                 [ImageContent (rendered example_env [LoadRom ''rom'', DoFrame]) ''image/png''],
               isError = False\<rparr>, e2)
         \<and> gameboy e2 = [LoadRom ''rom'', DoFrame]
         \<and> ticks (gameboy e2) = 1
         \<and> gameboy e2 = gameboy e1)"
proof -
  have h: "romLoaded example_session" "gameboy example_session = [LoadRom ''rom'']"
    by (simp_all add: example_session_def)
  have t: "ticks [LoadRom ''rom''] = 0"
    by (simp add: ticks_def)
  have b: "toString_base64 example_env = (\<lambda>s. s)"
    by (simp add: example_env_def)
  from C2_get_screen_runs_one_frame_then_reads [OF h(1), of example_env]
  show ?thesis
    using h t b by auto
qed

subsection \<open>Claim C6: pressing a button\<close>

text \<open>
  C6: for every button \<open>b\<close> and duration \<open>d\<close> (a number of frames, \<open>0 \<le> d\<close>),
  \<open>pressButton(b, d)\<close> on a loaded session makes \<open>d\<close> rounds of \<open>pressKeys([key b])\<close>
  followed by a frame, then one frame before which no key is pressed (the core holds a
  pressed key for one frame), \<open>d + 1\<close> frames in all, and returns the frame of the state
  reached; with no ROM loaded it fails with the error "No ROM loaded".
\<close>

theorem C6_pressButton_runs_d_plus_one_frames:
  fixes d :: int
  assumes "0 \<le> d"
  shows "(romLoaded e \<longrightarrow>
          (\<exists>e'. tool_pressButton env b d e =
                  Inr (ImageContent (toString_base64 env (rendered env (gameboy e'))) ''image/png'', e')
               \<and> gameboy e' =
                   gameboy e @ concat (replicate (nat d) [PressKeys [KEYMAP env b], DoFrame]) @ [DoFrame]
               \<and> int (ticks (gameboy e')) = int (ticks (gameboy e)) + d + 1))
       \<and> (\<not> romLoaded e \<longrightarrow>
            tool_pressButton env b d e = Inl (Error ''No ROM loaded'')
          \<and> pressButton env b d e = Inl (Error ''No ROM loaded''))"
  using assms
  by (simp add: tool_pressButton_def isRomLoaded_def pressButton_def getScreen_loaded
      press_loop_append core_doFrame_def ticks_append ticks_presses) (simp add: ticks_def)

theorem C6_pressButton_runs_d_plus_one_frames_witness:
  "(0::int) \<le> 2
   \<and> romLoaded example_session
   \<and> (\<exists>e'. tool_pressButton example_env START 2 example_session =
              Inr (ImageContent (rendered example_env (gameboy e')) ''image/png'', e')
           \<and> gameboy e' =
               [LoadRom ''rom'', PressKeys [7], DoFrame, PressKeys [7], DoFrame, DoFrame]
           \<and> int (ticks (gameboy e')) = 3)
   \<and> \<not> romLoaded new_GameBoyEmulator
   \<and> tool_pressButton example_env START 2 new_GameBoyEmulator = Inl (Error ''No ROM loaded'')
   \<and> pressButton example_env START 2 new_GameBoyEmulator = Inl (Error ''No ROM loaded'')"
proof -
  have d: "(0::int) \<le> 2" by simp
  have h: "romLoaded example_session" "gameboy example_session = [LoadRom ''rom'']"
    "\<not> romLoaded new_GameBoyEmulator"
    by (simp_all add: example_session_def new_GameBoyEmulator_def)
  have t: "ticks [LoadRom ''rom''] = 0"
    by (simp add: ticks_def)
  have k: "KEYMAP example_env START = 7" "toString_base64 example_env = (\<lambda>s. s)"
    by (simp_all add: example_env_def)
  have r: "replicate (nat 2) [PressKeys [7], DoFrame] = [[PressKeys [7], DoFrame], [PressKeys [7], DoFrame]]"
    by (simp add: numeral_eq_Suc)
  from C6_pressButton_runs_d_plus_one_frames [OF d, of example_session example_env START]
       C6_pressButton_runs_d_plus_one_frames [OF d, of new_GameBoyEmulator example_env START]
  show ?thesis
    using h t k r by auto
qed

subsection \<open>Claim C9: fan-out and fault isolation\<close>

text \<open>
  C9: a firing with at least one subscriber renders one frame and hands that same frame to
  every subscriber, in order; the firing returns whatever the callbacks do; the callbacks
  that return receive the frame and stay subscribed, and exactly those that raise are
  removed from the subscriber set.
\<close>

theorem C9_tick_delivers_one_frame_and_prunes_raisers:
  assumes "streamActive e" "romLoaded e" "framesToAdvance (STREAM_FPS env) = Some n"
    and "streamClients e \<noteq> []"
    and "frame = rendered env (gameboy e @ replicate n DoFrame)"
  shows "\<exists>e' out d. tick env raises e = Returns (e', out, d)
          \<and> out = map (\<lambda>c. (c, frame)) (filter (\<lambda>c. \<not> raises c frame) (streamClients e))
          \<and> streamClients e' = filter (\<lambda>c. \<not> raises c frame) (streamClients e)
          \<and> (\<forall>c \<in> set (streamClients e).
                \<not> raises c frame \<longrightarrow> (c, frame) \<in> set out \<and> c \<in> set (streamClients e'))
          \<and> (\<forall>c \<in> set (streamClients e). raises c frame \<longrightarrow> c \<notin> set (streamClients e'))
          \<and> (\<forall>(c, f) \<in> set out. f = frame)"
  using assms by (auto simp add: tick_returns)

theorem C9_tick_delivers_one_frame_and_prunes_raisers_witness:
  "streamActive (example_session\<lparr>streamActive := True, streamClients := [1, 2, 3]\<rparr>)
   \<and> romLoaded (example_session\<lparr>streamActive := True, streamClients := [1, 2, 3]\<rparr>)
   \<and> framesToAdvance (STREAM_FPS example_env) = Some 4
   \<and> streamClients (example_session\<lparr>streamActive := True, streamClients := [1, 2, 3]\<rparr>) \<noteq> []
   \<and> (\<exists>e' d.
        tick example_env (only_raises 2)
          (example_session\<lparr>streamActive := True, streamClients := [1, 2, 3]\<rparr>)
        = Returns (e',
            [(1, rendered example_env ([LoadRom ''rom''] @ replicate 4 DoFrame)),
             (3, rendered example_env ([LoadRom ''rom''] @ replicate 4 DoFrame))], d)
        \<and> streamClients e' = [1, 3])"
proof -
  have h: "streamActive (example_session\<lparr>streamActive := True, streamClients := [1, 2, 3]\<rparr>)"
    "romLoaded (example_session\<lparr>streamActive := True, streamClients := [1, 2, 3]\<rparr>)"
    "streamClients (example_session\<lparr>streamActive := True, streamClients := [1, 2, 3]\<rparr>) \<noteq> []"
    by (simp_all add: example_session_def new_GameBoyEmulator_def)
  have g: "gameboy (example_session\<lparr>streamActive := True, streamClients := [1, 2, 3]\<rparr>)
             = [LoadRom ''rom'']"
    "streamClients (example_session\<lparr>streamActive := True, streamClients := [1, 2, 3]\<rparr>) = [1, 2, 3]"
    "gameboy example_session = [LoadRom ''rom'']"
    by (simp_all add: example_session_def new_GameBoyEmulator_def)
  from C9_tick_delivers_one_frame_and_prunes_raisers
         [OF h(1) h(2) framesToAdvance_example h(3) refl, of "only_raises 2"]
  show ?thesis
    using h framesToAdvance_example by (auto simp add: g only_raises_def)
qed

subsection \<open>Claim C10: listing save states with nothing to list\<close>

text \<open>
  C10: \<open>listStates\<close> returns the empty list, and raises nothing, when neither the argument
  nor the session names a game, and when the saves directory of the game it is asked about
  does not exist.
\<close>

theorem C10_listStates_empty_without_game_or_directory:
  "(falsy game \<and> falsy (gameName e) \<longrightarrow> listStates env game e fs = Inr [])
   \<and> (or_opt game (gameName e) = Some g \<and> \<not> existsSync fs (getSavesDir env g)
        \<longrightarrow> listStates env game e fs = Inr [])"
  by (auto simp add: listStates_def or_opt_def falsy_def Let_def split: option.splits)

theorem C10_listStates_empty_without_game_or_directory_witness:
  "falsy None \<and> falsy (gameName new_GameBoyEmulator)
   \<and> listStates example_env None new_GameBoyEmulator [] = Inr []
   \<and> or_opt (Some ''zelda'') (gameName example_session) = Some ''zelda''
   \<and> \<not> existsSync [] (getSavesDir example_env ''zelda'')
   \<and> listStates example_env (Some ''zelda'') example_session [] = Inr []"
proof -
  have h: "falsy None \<and> falsy (gameName new_GameBoyEmulator)"
    "or_opt (Some ''zelda'') (gameName example_session) = Some ''zelda''
       \<and> \<not> existsSync [] (getSavesDir example_env ''zelda'')"
    by (simp_all add: falsy_def or_opt_def new_GameBoyEmulator_def existsSync_def)
  from C10_listStates_empty_without_game_or_directory
         [of None new_GameBoyEmulator example_env "[]" "''zelda''"]
       C10_listStates_empty_without_game_or_directory
         [of "Some ''zelda''" example_session example_env "[]" "''zelda''"]
  show ?thesis
    using h by blast
qed

subsection \<open>Claim C3: the id of an installed title\<close>

lemma is_alnum_not_dash: "is_alnum c \<Longrightarrow> c \<noteq> CHR ''-''"
  by (auto simp: is_alnum_def)

lemma replace_runs_chars: "list_all (\<lambda>c. is_alnum c \<or> c = CHR ''-'') (replace_runs s)"
  by (induction s rule: replace_runs.induct) auto

lemma to_lower_id_char: "is_alnum c \<or> c = CHR ''-'' \<Longrightarrow> is_id_char (to_lower c)"
  by (auto simp: is_alnum_def is_id_char_def to_lower_def Let_def)

lemma to_lower_dash: "to_lower c = CHR ''-'' \<longleftrightarrow> c = CHR ''-''"
proof (cases "65 \<le> (of_char c :: nat) \<and> (of_char c :: nat) \<le> 90")
  case True
  then have "(of_char (to_lower c) :: nat) = of_char c + 32"
    by (simp add: to_lower_def Let_def)
  with True have "(of_char (to_lower c) :: nat) \<noteq> of_char (CHR ''-'')"
    by simp
  then have "to_lower c \<noteq> CHR ''-''"
    by metis
  moreover have "c \<noteq> CHR ''-''"
    using True by auto
  ultimately show ?thesis by simp
next
  case False
  then show ?thesis by (auto simp add: to_lower_def Let_def)
qed

lemma toLowerCase_chars:
  "list_all (\<lambda>c. is_alnum c \<or> c = CHR ''-'') s \<Longrightarrow> list_all is_id_char (toLowerCase s)"
  by (induction s) (auto simp: toLowerCase_def to_lower_id_char)

lemma replace_runs_after_run:
  "replace_runs (dropWhile (\<lambda>x. \<not> is_alnum x) cs) = []
   \<or> hd (replace_runs (dropWhile (\<lambda>x. \<not> is_alnum x) cs)) \<noteq> CHR ''-''"
proof (cases "dropWhile (\<lambda>x. \<not> is_alnum x) cs")
  case Nil
  show ?thesis unfolding Nil by simp
next
  case (Cons d ds)
  then have "is_alnum d"
    using hd_dropWhile [of "\<lambda>x. \<not> is_alnum x" cs] by simp
  with Cons show ?thesis by (simp add: is_alnum_not_dash)
qed

lemma no_double_dash_Cons:
  "no_double_dash (a # s) \<longleftrightarrow> (s = [] \<or> \<not> (a = CHR ''-'' \<and> hd s = CHR ''-'')) \<and> no_double_dash s"
  by (cases s) auto

lemma replace_runs_no_double_dash: "no_double_dash (replace_runs s)"
proof (induction s rule: replace_runs.induct)
  case 1
  show ?case by simp
next
  case (2 c cs)
  show ?case
  proof (cases "is_alnum c")
    case True
    with 2 show ?thesis
      by (simp add: no_double_dash_Cons is_alnum_not_dash)
  next
    case False
    with 2 replace_runs_after_run [of cs] show ?thesis
      by (auto simp add: no_double_dash_Cons)
  qed
qed

lemma toLowerCase_no_double_dash: "no_double_dash s \<Longrightarrow> no_double_dash (toLowerCase s)"
  by (induction s rule: no_double_dash.induct) (auto simp: toLowerCase_def to_lower_dash)

lemma no_double_dash_snoc:
  "no_double_dash (xs @ [a]) \<Longrightarrow> xs \<noteq> [] \<Longrightarrow> \<not> (last xs = CHR ''-'' \<and> a = CHR ''-'')"
  by (induction xs rule: no_double_dash.induct) (auto split: if_splits)

lemma trim_last_dash:
  assumes "no_double_dash s" "s = [] \<or> hd s \<noteq> CHR ''-''"
  shows "\<not> dash_at_end (if s \<noteq> [] \<and> last s = CHR ''-'' then butlast s else s)"
proof (cases "s \<noteq> [] \<and> last s = CHR ''-''")
  case False
  with assms show ?thesis by (auto simp: dash_at_end_def)
next
  case True
  then obtain xs where s: "s = xs @ [CHR ''-'']"
    by (metis append_butlast_last_id)
  show ?thesis
  proof (cases "xs = []")
    case True
    with s assms show ?thesis by simp
  next
    case False
    with s assms no_double_dash_snoc [of xs "CHR ''-''"] show ?thesis
      by (auto simp: dash_at_end_def)
  qed
qed

lemma trim_dashes_ends:
  assumes "no_double_dash s"
  shows "\<not> dash_at_end (trim_dashes s)"
proof (cases s)
  case Nil
  then show ?thesis by (simp add: trim_dashes_def dash_at_end_def)
next
  case (Cons c cs)
  show ?thesis
  proof (cases "c = CHR ''-''")
    case True
    have eq: "trim_dashes s = (if cs \<noteq> [] \<and> last cs = CHR ''-'' then butlast cs else cs)"
      using Cons True by (simp add: trim_dashes_def Let_def)
    have "no_double_dash cs" "cs = [] \<or> hd cs \<noteq> CHR ''-''"
      using assms Cons True by (simp_all add: no_double_dash_Cons)
    then show ?thesis
      unfolding eq by (rule trim_last_dash)
  next
    case False
    have eq: "trim_dashes s = (if s \<noteq> [] \<and> last s = CHR ''-'' then butlast s else s)"
      using Cons False by (simp add: trim_dashes_def Let_def)
    have "s = [] \<or> hd s \<noteq> CHR ''-''"
      using Cons False by simp
    with assms show ?thesis
      unfolding eq by (rule trim_last_dash)
  qed
qed

lemma trim_dashes_subset: "set (trim_dashes s) \<subseteq> set s"
  by (cases s) (auto simp: trim_dashes_def dest: in_set_butlastD)

lemma sanitizeGameName_trim: "sanitizeGameName p = trim_dashes (spec_sanitized_id p)"
  by (simp add: sanitizeGameName_def spec_sanitized_id_def)

lemma sanitizeGameName_chars: "list_all is_id_char (sanitizeGameName p)"
proof -
  have "list_all is_id_char (spec_sanitized_id p)"
    unfolding spec_sanitized_id_def by (rule toLowerCase_chars) (rule replace_runs_chars)
  then show ?thesis
    using trim_dashes_subset [of "spec_sanitized_id p"]
    by (auto simp add: sanitizeGameName_trim list_all_iff)
qed

lemma sanitizeGameName_ends: "\<not> dash_at_end (sanitizeGameName p)"
  unfolding sanitizeGameName_trim spec_sanitized_id_def
  by (rule trim_dashes_ends) (rule toLowerCase_no_double_dash, rule replace_runs_no_double_dash)

lemma installRom_name:
  assumes "installRom env now src custom fs = Inr (g, fs')"
  shows "game_name g = or_else custom (sanitizeGameName src)"
  using assms
  by (auto simp add: installRom_def Let_def split: if_splits sum.splits)



lemma length_last_component: "length (last_component p) \<le> length p"
proof -
  have "length (takeWhile (\<lambda>c. c \<noteq> CHR ''/'') (dropWhile (\<lambda>c. c = CHR ''/'') (rev p)))
          \<le> length (dropWhile (\<lambda>c. c = CHR ''/'') (rev p))"
    by (rule length_takeWhile_le)
  also have "\<dots> \<le> length (rev p)"
    by (rule length_dropWhile_le)
  finally show ?thesis by (simp add: last_component_def)
qed

lemma last_component_no_slash: "CHR ''/'' \<notin> set (last_component p)"
  by (auto simp add: last_component_def dest: set_takeWhileD)

lemma basename_extname: "basename p (extname p) @ extname p = last_component p"
proof (cases "extname p = []")
  case True
  then show ?thesis by (simp add: basename_def)
next
  case False
  define b where "b = last_component p"
  define e where "e = rev (takeWhile (\<lambda>c. c \<noteq> CHR ''.'') (rev b))"
  from False have ext: "extname p = CHR ''.'' # e"
    and dot: "CHR ''.'' \<in> set b"
    and stem: "length b - length e - 1 \<noteq> 0"
    by (auto simp add: extname_def Let_def b_def e_def split: if_splits)
  obtain rest where rest: "dropWhile (\<lambda>c. c \<noteq> CHR ''.'') (rev b) = CHR ''.'' # rest"
  proof (cases "dropWhile (\<lambda>c. c \<noteq> CHR ''.'') (rev b)")
    case Nil
    with dot show ?thesis by auto
  next
    case (Cons d ds)
    then have "d = CHR ''.''"
      using hd_dropWhile [of "\<lambda>c. c \<noteq> CHR ''.''" "rev b"] by simp
    with Cons that show ?thesis by simp
  qed
  have "rev b = rev e @ CHR ''.'' # rest"
    using takeWhile_dropWhile_id [of "\<lambda>c. c \<noteq> CHR ''.''" "rev b"] rest
    by (simp add: e_def)
  then have "rev (rev b) = rev (rev e @ CHR ''.'' # rest)"
    by simp
  then have b_eq: "b = rev rest @ CHR ''.'' # e"
    by simp
  have nonempty: "rev rest \<noteq> []"
    using stem b_eq by auto
  obtain r rs where "rest = r # rs"
    using nonempty by (cases rest) auto
  then have "length b = length rs + length e + 2"
    unfolding b_eq by simp
  then have len: "length (CHR ''.'' # e) < length p"
    using length_last_component [of p] by (simp add: b_def [symmetric])
  have suf: "suffix (CHR ''.'' # e) b"
    unfolding b_eq by (simp add: suffix_def)
  have ne: "CHR ''.'' # e \<noteq> b"
    using nonempty unfolding b_eq by simp
  have "basename p (CHR ''.'' # e) = take (length b - length (CHR ''.'' # e)) b"
    using len suf ne by (auto simp add: basename_def b_def Let_def)
  also have "\<dots> = rev rest"
    unfolding b_eq by simp
  finally show ?thesis
    by (simp add: ext b_eq b_def [symmetric])
qed

text \<open>
  C3 says that the id of every installed title, with or without a custom name, is the
  sanitized name. \<open>installRom\<close> takes a non-empty custom name as it is given, so the
  claim fails: installing \<open>/tmp/a.gb\<close> under the name \<open>My Game\<close> gives the id
  \<open>My Game\<close>, which is neither lower-case nor free of spaces, and is the sanitized form
  neither of the path nor of the custom name.
\<close>

theorem C3_custom_name_not_sanitized_counterexample:
  "installRom example_env 5 ''/tmp/a.gb'' (Some ''My Game'') [(''/tmp/a.gb'', File ''rom'' 1)]
     = Inr (\<lparr>game_name = ''My Game'', game_romPath = ''/h/.gameboy-mcp/games/My Game/rom.gb'',
             game_savesDir = ''/h/.gameboy-mcp/games/My Game/saves'',
             game_installedAt = ''t''\<rparr>,
            [(''/tmp/a.gb'', File ''rom'' 1),
             (''/h/.gameboy-mcp/games/My Game'', Dir 5),
             (''/h/.gameboy-mcp/games/My Game/saves'', Dir 5),
             (''/h/.gameboy-mcp/games/My Game/rom.gb'', File ''rom'' 5),
             (''/h/.gameboy-mcp/games/My Game/game.json'', File ''{}'' 5)])
   \<and> spec_sanitized_id ''/tmp/a.gb'' = ''a''
   \<and> spec_sanitized_id ''My Game'' = ''my-game''
   \<and> \<not> list_all is_id_char ''My Game''"
  by code_simp

text \<open>
  C3 as amended: an install without a custom name (or with an empty one) gives the id
  \<open>sanitizeGameName sourcePath\<close>, which is the id of the specification with one dash
  removed at the start and one at the end: it consists of lower-case letters, digits and
  dashes and neither starts nor ends with a dash. An install with a non-empty custom name
  gives that name as the id. (By \<open>basename_extname\<close> the name sanitized is the last
  component of the path without its extension.)
\<close>

theorem C3_install_id_is_sanitized_path_or_custom_name:
  assumes "installRom env now src custom fs = Inr (g, fs')"
  shows "(falsy custom \<longrightarrow>
            game_name g = sanitizeGameName src
          \<and> game_name g = trim_dashes (spec_sanitized_id src)
          \<and> list_all is_id_char (game_name g)
          \<and> \<not> dash_at_end (game_name g))
       \<and> (\<not> falsy custom \<longrightarrow> custom = Some (game_name g))"
  using installRom_name [OF assms] sanitizeGameName_chars [of src] sanitizeGameName_ends [of src]
  by (auto simp add: falsy_def or_else_def sanitizeGameName_trim split: option.splits)

lemma install_pokemon_example:
  "installRom example_env 5 ''/tmp/Pokemon Red (USA).gb'' None
          [(''/tmp/Pokemon Red (USA).gb'', File ''rom'' 1)]
        = Inr (\<lparr>game_name = ''pokemon-red-usa'',
                game_romPath = ''/h/.gameboy-mcp/games/pokemon-red-usa/rom.gb'',
                game_savesDir = ''/h/.gameboy-mcp/games/pokemon-red-usa/saves'',
                game_installedAt = ''t''\<rparr>,
               [(''/tmp/Pokemon Red (USA).gb'', File ''rom'' 1),
                (''/h/.gameboy-mcp/games/pokemon-red-usa'', Dir 5),
                (''/h/.gameboy-mcp/games/pokemon-red-usa/saves'', Dir 5),
                (''/h/.gameboy-mcp/games/pokemon-red-usa/rom.gb'', File ''rom'' 5),
                (''/h/.gameboy-mcp/games/pokemon-red-usa/game.json'', File ''{}'' 5)])"
  by code_simp

lemma install_custom_example:
  "installRom example_env 5 ''/tmp/a.gb'' (Some ''My Game'') [(''/tmp/a.gb'', File ''rom'' 1)]
     = Inr (\<lparr>game_name = ''My Game'', game_romPath = ''/h/.gameboy-mcp/games/My Game/rom.gb'',
             game_savesDir = ''/h/.gameboy-mcp/games/My Game/saves'',
             game_installedAt = ''t''\<rparr>,
            [(''/tmp/a.gb'', File ''rom'' 1),
             (''/h/.gameboy-mcp/games/My Game'', Dir 5),
             (''/h/.gameboy-mcp/games/My Game/saves'', Dir 5),
             (''/h/.gameboy-mcp/games/My Game/rom.gb'', File ''rom'' 5),
             (''/h/.gameboy-mcp/games/My Game/game.json'', File ''{}'' 5)])"
  by code_simp

theorem C3_install_id_is_sanitized_path_or_custom_name_witness:
  "installRom example_env 5 ''/tmp/Pokemon Red (USA).gb'' None
          [(''/tmp/Pokemon Red (USA).gb'', File ''rom'' 1)]
        = Inr (\<lparr>game_name = ''pokemon-red-usa'',
                game_romPath = ''/h/.gameboy-mcp/games/pokemon-red-usa/rom.gb'',
                game_savesDir = ''/h/.gameboy-mcp/games/pokemon-red-usa/saves'',
                game_installedAt = ''t''\<rparr>,
               [(''/tmp/Pokemon Red (USA).gb'', File ''rom'' 1),
                (''/h/.gameboy-mcp/games/pokemon-red-usa'', Dir 5),
                (''/h/.gameboy-mcp/games/pokemon-red-usa/saves'', Dir 5),
                (''/h/.gameboy-mcp/games/pokemon-red-usa/rom.gb'', File ''rom'' 5),
                (''/h/.gameboy-mcp/games/pokemon-red-usa/game.json'', File ''{}'' 5)])
   \<and> falsy None
   \<and> ''pokemon-red-usa'' = sanitizeGameName ''/tmp/Pokemon Red (USA).gb''
   \<and> ''pokemon-red-usa'' = trim_dashes (spec_sanitized_id ''/tmp/Pokemon Red (USA).gb'')
   \<and> list_all is_id_char ''pokemon-red-usa''
   \<and> \<not> dash_at_end ''pokemon-red-usa''
   \<and> \<not> falsy (Some ''My Game'')
   \<and> installRom example_env 5 ''/tmp/a.gb'' (Some ''My Game'') [(''/tmp/a.gb'', File ''rom'' 1)]
     = Inr (\<lparr>game_name = ''My Game'', game_romPath = ''/h/.gameboy-mcp/games/My Game/rom.gb'',
             game_savesDir = ''/h/.gameboy-mcp/games/My Game/saves'',
             game_installedAt = ''t''\<rparr>,
            [(''/tmp/a.gb'', File ''rom'' 1),
             (''/h/.gameboy-mcp/games/My Game'', Dir 5),
             (''/h/.gameboy-mcp/games/My Game/saves'', Dir 5),
             (''/h/.gameboy-mcp/games/My Game/rom.gb'', File ''rom'' 5),
             (''/h/.gameboy-mcp/games/My Game/game.json'', File ''{}'' 5)])"
proof -
  have f: "falsy None" "\<not> falsy (Some ''My Game'')"
    by (simp_all add: falsy_def)
  from C3_install_id_is_sanitized_path_or_custom_name [OF install_pokemon_example]
       C3_install_id_is_sanitized_path_or_custom_name [OF install_custom_example]
  show ?thesis
    using f install_pokemon_example install_custom_example
    unfolding InstalledGame.select_convs by blast
qed

subsection \<open>Facts about the example session and store\<close>

lemma example_paths:
  "getSavesDir example_env ''g'' = ''/h/.gameboy-mcp/games/g/saves''"
  "stateFile_of example_env ''g'' ''ab12cd34'' = ''/h/.gameboy-mcp/games/g/saves/ab12cd34.state.json''"
  "metadataFile_of example_env ''g'' ''ab12cd34'' = ''/h/.gameboy-mcp/games/g/saves/ab12cd34.meta.json''"
  by (simp_all add: stateFile_of_def metadataFile_of_def getSavesDir_def getGameDir_def
      GAMES_DIR_def GAMEBOY_HOME_def path_join_def example_env_def)

lemma example_session_fields:
  "romLoaded example_session" "gameName example_session = Some ''g''"
  "gameboy example_session = [LoadRom ''rom'']" "streamClients example_session = []"
  "\<not> romLoaded new_GameBoyEmulator" "gameName new_GameBoyEmulator = None"
  by (simp_all add: example_session_def new_GameBoyEmulator_def)

subsection \<open>Claim C8: deleting a save state\<close>

lemma existsSync_delete: "existsSync (AList.delete k fs) p \<longleftrightarrow> p \<noteq> k \<and> existsSync fs p"
  by (simp add: existsSync_def delete_conv')

lemma isDirectory_delete: "isDirectory (AList.delete k fs) p \<longleftrightarrow> p \<noteq> k \<and> isDirectory fs p"
  by (simp add: isDirectory_def delete_conv')

lemma unlinkSync_file:
  "existsSync fs p \<Longrightarrow> \<not> isDirectory fs p \<Longrightarrow> unlinkSync p fs = Inr (AList.delete p fs)"
  by (auto simp add: existsSync_def isDirectory_def unlinkSync_def split: option.splits node.splits)

lemma delete_absent: "\<not> existsSync fs p \<Longrightarrow> AList.delete p fs = fs"
  by (induction fs) (auto simp add: existsSync_def split: if_splits)

lemma state_meta_distinct: "stateFile_of env g stateId \<noteq> metadataFile_of env g stateId"
  by (simp add: stateFile_of_def metadataFile_of_def path_join_def)

lemma deleteState_target:
  assumes "or_opt game (gameName e) = Some g" "g \<noteq> []"
    and "\<not> isDirectory fs (stateFile_of env g stateId)"
    and "\<not> isDirectory fs (metadataFile_of env g stateId)"
  shows "deleteState env stateId game e fs =
           Inr (existsSync fs (stateFile_of env g stateId) \<or> existsSync fs (metadataFile_of env g stateId),
                AList.delete (metadataFile_of env g stateId) (AList.delete (stateFile_of env g stateId) fs))"
  using assms state_meta_distinct [of env g stateId]
  by (auto simp add: deleteState_def Let_def unlinkSync_file existsSync_delete isDirectory_delete
      delete_absent stateFile_of_def [symmetric] metadataFile_of_def [symmetric])

text \<open>
  C8: \<open>deleteState\<close> removes the state file and the metadata file of the save state when
  they are there (as files), leaves every other path alone, returns true exactly when one
  of the two was there, and does not raise when neither is: a second call on the resulting
  store returns false and changes nothing. With no game to look in it returns false.
\<close>

theorem C8_deleteState_removes_both_and_is_idempotent:
  "(falsy (or_opt game (gameName e)) \<longrightarrow> deleteState env stateId game e fs = Inr (False, fs))
   \<and> (or_opt game (gameName e) = Some g \<and> g \<noteq> []
        \<and> \<not> isDirectory fs (stateFile_of env g stateId)
        \<and> \<not> isDirectory fs (metadataFile_of env g stateId) \<longrightarrow>
        (\<exists>fs'. deleteState env stateId game e fs =
                  Inr (existsSync fs (stateFile_of env g stateId)
                         \<or> existsSync fs (metadataFile_of env g stateId), fs')
              \<and> \<not> existsSync fs' (stateFile_of env g stateId)
              \<and> \<not> existsSync fs' (metadataFile_of env g stateId)
              \<and> (\<forall>p. p \<noteq> stateFile_of env g stateId \<and> p \<noteq> metadataFile_of env g stateId
                     \<longrightarrow> map_of fs' p = map_of fs p)
              \<and> deleteState env stateId game e fs' = Inr (False, fs')))"
proof -
  have 1: "falsy (or_opt game (gameName e)) \<longrightarrow> deleteState env stateId game e fs = Inr (False, fs)"
    by (auto simp add: deleteState_def falsy_def split: option.splits)
  have 2: "\<exists>fs'. deleteState env stateId game e fs =
                  Inr (existsSync fs (stateFile_of env g stateId)
                         \<or> existsSync fs (metadataFile_of env g stateId), fs')
              \<and> \<not> existsSync fs' (stateFile_of env g stateId)
              \<and> \<not> existsSync fs' (metadataFile_of env g stateId)
              \<and> (\<forall>p. p \<noteq> stateFile_of env g stateId \<and> p \<noteq> metadataFile_of env g stateId
                     \<longrightarrow> map_of fs' p = map_of fs p)
              \<and> deleteState env stateId game e fs' = Inr (False, fs')"
    if h: "or_opt game (gameName e) = Some g" "g \<noteq> []"
      "\<not> isDirectory fs (stateFile_of env g stateId)"
      "\<not> isDirectory fs (metadataFile_of env g stateId)"
  proof -
    let ?sf = "stateFile_of env g stateId" and ?mf = "metadataFile_of env g stateId"
    let ?fs' = "AList.delete ?mf (AList.delete ?sf fs)"
    have a: "deleteState env stateId game e fs = Inr (existsSync fs ?sf \<or> existsSync fs ?mf, ?fs')"
      by (rule deleteState_target [OF h])
    have b: "\<not> existsSync ?fs' ?sf" "\<not> existsSync ?fs' ?mf"
      by (simp_all add: existsSync_delete)
    have c: "\<forall>p. p \<noteq> ?sf \<and> p \<noteq> ?mf \<longrightarrow> map_of ?fs' p = map_of fs p"
      by (simp add: delete_conv')
    have d: "\<not> isDirectory ?fs' ?sf" "\<not> isDirectory ?fs' ?mf"
      by (simp_all add: isDirectory_delete)
    have "deleteState env stateId game e ?fs' = Inr (False, ?fs')"
      using deleteState_target [OF h(1) h(2) d] b by (simp add: delete_absent)
    with a b c show ?thesis by blast
  qed
  from 1 2 show ?thesis by blast
qed

theorem C8_deleteState_removes_both_and_is_idempotent_witness:
  "falsy (or_opt None (gameName new_GameBoyEmulator))
   \<and> deleteState example_env ''ab12cd34'' None new_GameBoyEmulator example_saves
       = Inr (False, example_saves)
   \<and> or_opt None (gameName example_session) = Some ''g'' \<and> ''g'' \<noteq> []
   \<and> \<not> isDirectory example_saves (stateFile_of example_env ''g'' ''ab12cd34'')
   \<and> \<not> isDirectory example_saves (metadataFile_of example_env ''g'' ''ab12cd34'')
   \<and> deleteState example_env ''ab12cd34'' None example_session example_saves
       = Inr (True, [(''/h/.gameboy-mcp/games/g/saves'', Dir 1)])
   \<and> deleteState example_env ''ab12cd34'' None example_session
         [(''/h/.gameboy-mcp/games/g/saves'', Dir 1)]
       = Inr (False, [(''/h/.gameboy-mcp/games/g/saves'', Dir 1)])"
proof -
  have h1: "falsy (or_opt None (gameName new_GameBoyEmulator))"
    by (simp add: falsy_def or_opt_def example_session_fields)
  have h2: "or_opt None (gameName example_session) = Some ''g'' \<and> ''g'' \<noteq> []
     \<and> \<not> isDirectory example_saves (stateFile_of example_env ''g'' ''ab12cd34'')
     \<and> \<not> isDirectory example_saves (metadataFile_of example_env ''g'' ''ab12cd34'')"
    by (simp add: falsy_def or_opt_def example_session_fields example_paths isDirectory_def
        example_saves_def)
  have ex: "existsSync example_saves (stateFile_of example_env ''g'' ''ab12cd34'')"
    by (simp add: existsSync_def example_paths example_saves_def)
  have del: "AList.delete (metadataFile_of example_env ''g'' ''ab12cd34'')
               (AList.delete (stateFile_of example_env ''g'' ''ab12cd34'') example_saves)
             = [(''/h/.gameboy-mcp/games/g/saves'', Dir 1)]"
    by (simp add: example_paths example_saves_def)
  from C8_deleteState_removes_both_and_is_idempotent [of None new_GameBoyEmulator example_env "''ab12cd34''" example_saves "''g''"]
       C8_deleteState_removes_both_and_is_idempotent [of None example_session example_env "''ab12cd34''" example_saves "''g''"]
  show ?thesis
    using h1 h2 ex del by (auto simp add: deleteState_target)
qed

subsection \<open>Claim C4: loading a save state whose artifacts are missing or unreadable\<close>

lemma readable_json_missing: "\<not> existsSync fs p \<Longrightarrow> readable_json env fs p = None"
  by (simp add: readable_json_def readFileSync_def existsSync_def)

lemma loadState_loaded:
  assumes "romLoaded e" "gameName e = Some g" "g \<noteq> []"
  shows "loadState env stateId e fs =
     (if \<not> existsSync fs (stateFile_of env g stateId)
      then Inl (Error (''Save state not found: '' @ stateId))
      else (case readFileSync fs (stateFile_of env g stateId) of
              Inl err \<Rightarrow> Inl err
            | Inr stateText \<Rightarrow>
                (case JSON_parse env stateText of
                   Inl m \<Rightarrow> Inl (SyntaxError m)
                 | Inr state \<Rightarrow>
                     (case readFileSync fs (metadataFile_of env g stateId) of
                        Inl err \<Rightarrow> Inl err
                      | Inr metaText \<Rightarrow>
                          (case JSON_parse env metaText of
                             Inl m \<Rightarrow> Inl (SyntaxError m)
                           | Inr metadata \<Rightarrow>
                               (case core_restore_error env (gameboy e) state of
                                  Some m \<Rightarrow> Inl (Error m)
                                | None \<Rightarrow>
                                    Inr (metadata,
                                         e\<lparr>gameboy := gameboy e @ [ReturnFromState state]\<rparr>)))))))"
  using assms
  by (simp add: loadState_def Let_def stateFile_of_def metadataFile_of_def core_returnFromState_def
      split: sum.splits option.splits)

text \<open>
  C4 says that the load fails with NotFound whenever one of the two artifacts is missing
  or unreadable. \<open>loadState\<close> checks only that the state file exists; a state file that is
  there but is not JSON makes \<open>JSON.parse\<close> throw a SyntaxError, and a directory in its
  place makes the read throw \<open>EISDIR\<close>. Neither is a not-found error, so the claim fails.
\<close>

theorem C4_unreadable_artifact_is_not_NotFound_counterexample:
  "romLoaded example_session \<and> gameName example_session = Some ''g''
   \<and> existsSync example_corrupt_saves (stateFile_of example_env ''g'' ''ab12cd34'')
   \<and> existsSync example_corrupt_saves (metadataFile_of example_env ''g'' ''ab12cd34'')
   \<and> loadState example_env ''ab12cd34'' example_session example_corrupt_saves
       = Inl (SyntaxError ''Unexpected token'')
   \<and> \<not> not_found_kind (SyntaxError ''Unexpected token'')
   \<and> loadState example_env ''ab12cd34'' example_session example_directory_saves
       = Inl (SystemError ''EISDIR'' ''/h/.gameboy-mcp/games/g/saves/ab12cd34.state.json'')
   \<and> \<not> not_found_kind
         (SystemError ''EISDIR'' ''/h/.gameboy-mcp/games/g/saves/ab12cd34.state.json'')"
proof -
  have p: "JSON_parse example_env ''x'' = Inl ''Unexpected token''"
    by (simp add: example_env_def)
  show ?thesis
    by (simp add: loadState_loaded [of example_session "''g''"] example_session_fields
        example_paths example_corrupt_saves_def example_directory_saves_def existsSync_def
        readFileSync_def p not_found_kind_def)
qed

text \<open>
  C4 as amended: in a loaded session the load fails whenever one of the two artifacts is
  missing or unreadable, and when it succeeds both are present and readable (and the core
  took the state); the failure is the error "Save state not found" when the state file is
  missing.
\<close>

theorem C4_loadState_fails_unless_both_artifacts_readable:
  assumes "romLoaded e" "gameName e = Some g" "g \<noteq> []"
  shows "(\<not> existsSync fs (stateFile_of env g stateId) \<longrightarrow>
            loadState env stateId e fs = Inl (Error (''Save state not found: '' @ stateId)))
       \<and> (\<not> existsSync fs (stateFile_of env g stateId)
            \<or> \<not> existsSync fs (metadataFile_of env g stateId)
            \<or> readable_json env fs (stateFile_of env g stateId) = None
            \<or> readable_json env fs (metadataFile_of env g stateId) = None \<longrightarrow>
            isl (loadState env stateId e fs))
       \<and> (\<forall>m e'. loadState env stateId e fs = Inr (m, e') \<longrightarrow>
            existsSync fs (stateFile_of env g stateId)
          \<and> existsSync fs (metadataFile_of env g stateId)
          \<and> readable_json env fs (metadataFile_of env g stateId) = Some m
          \<and> (\<exists>s. readable_json env fs (stateFile_of env g stateId) = Some s
                 \<and> core_restore_error env (gameboy e) s = None
                 \<and> e' = e\<lparr>gameboy := gameboy e @ [ReturnFromState s]\<rparr>))"
proof -
  have r: "readable_json env fs p = Some j \<Longrightarrow> existsSync fs p" for p j
    by (auto simp add: readable_json_def readFileSync_def existsSync_def
        split: option.splits sum.splits)
  show ?thesis
    using r [of "stateFile_of env g stateId"] r [of "metadataFile_of env g stateId"]
    by (auto simp add: loadState_loaded [OF assms] readable_json_def
        split: sum.splits option.splits)
qed

theorem C4_loadState_fails_unless_both_artifacts_readable_witness:
  "romLoaded example_session \<and> gameName example_session = Some ''g'' \<and> ''g'' \<noteq> []
   \<and> \<not> existsSync [] (stateFile_of example_env ''g'' ''ab12cd34'')
   \<and> loadState example_env ''ab12cd34'' example_session []
       = Inl (Error ''Save state not found: ab12cd34'')
   \<and> isl (loadState example_env ''ab12cd34'' example_session [])
   \<and> loadState example_env ''ab12cd34'' example_session example_saves
       = Inr (JObj [], example_session\<lparr>gameboy := [LoadRom ''rom'', ReturnFromState (JNum 2)]\<rparr>)
   \<and> existsSync example_saves (stateFile_of example_env ''g'' ''ab12cd34'')
   \<and> existsSync example_saves (metadataFile_of example_env ''g'' ''ab12cd34'')
   \<and> readable_json example_env example_saves (metadataFile_of example_env ''g'' ''ab12cd34'')
       = Some (JObj [])"
proof -
  have h: "romLoaded example_session" "gameName example_session = Some ''g''" "''g'' \<noteq> []"
    by (simp_all add: example_session_fields)
  have a: "\<not> existsSync [] (stateFile_of example_env ''g'' ''ab12cd34'')"
    by (simp add: existsSync_def)
  have p: "JSON_parse example_env ''11'' = Inr (JNum 2)"
    "JSON_parse example_env ''{}'' = Inr (JObj [])"
    "core_restore_error example_env [LoadRom ''rom''] (JNum 2) = None"
    by (simp_all add: example_env_def)
  have ev: "loadState example_env ''ab12cd34'' example_session example_saves
       = Inr (JObj [], example_session\<lparr>gameboy := [LoadRom ''rom'', ReturnFromState (JNum 2)]\<rparr>)"
    by (simp add: loadState_loaded [of example_session "''g''"] example_session_fields
        example_paths example_saves_def existsSync_def readFileSync_def p)
  from C4_loadState_fails_unless_both_artifacts_readable [OF h, of "[]" example_env "''ab12cd34''"]
       C4_loadState_fails_unless_both_artifacts_readable [OF h, of example_saves example_env "''ab12cd34''"]
  show ?thesis
    using h a ev by auto
qed

subsection \<open>Claim C5: save, then restore at once\<close>

lemma writeFileSync_Inr:
  "writeFileSync now p c fs = Inr fs' \<Longrightarrow> fs' = AList.update p (File c now) fs"
  by (auto simp add: writeFileSync_def split: option.splits node.splits)



lemma writeFileSync_ok:
  "\<not> isDirectory fs p \<Longrightarrow> writeFileSync now p c fs = Inr (AList.update p (File c now) fs)"
  by (auto simp add: writeFileSync_def isDirectory_def split: option.splits node.splits)






subsection \<open>Claim C7: installing twice\<close>

lemma map_of_ensureDir:
  "map_of (ensureDir now d fs) p
     = (if p = d \<and> \<not> existsSync fs d then Some (Dir now) else map_of fs p)"
  by (simp add: ensureDir_def mkdirSync_def update_conv')

lemma existsSync_ensureDir: "existsSync (ensureDir now d fs) p \<longleftrightarrow> p = d \<or> existsSync fs p"
  by (auto simp add: existsSync_def map_of_ensureDir)

lemma ensureDir_existing: "existsSync fs d \<Longrightarrow> ensureDir now d fs = fs"
  by (simp add: ensureDir_def)

lemma existsSync_update: "existsSync (AList.update k v fs) p \<longleftrightarrow> p = k \<or> existsSync fs p"
  by (simp add: existsSync_def update_conv')

lemma keys_update_existing: "existsSync fs k \<Longrightarrow> map fst (AList.update k v fs) = map fst fs"
  by (simp add: existsSync_def update_keys map_of_eq_None_iff)

lemma copyRomIfNewer_eq:
  "existsSync fs src \<Longrightarrow>
   copyRomIfNewer now src dest fs
     = (if needsCopy fs src dest then copyFileSync now src dest fs else Inr fs)"
  by (auto simp add: copyRomIfNewer_def needsCopy_def existsSync_def statSync_mtime_def
      split: option.splits)

lemma copyFileSync_Inr:
  "copyFileSync now src dest fs = Inr fs' \<Longrightarrow>
   \<exists>c m. map_of fs src = Some (File c m) \<and> \<not> isDirectory fs dest
        \<and> fs' = AList.update dest (File c now) fs"
  by (auto simp add: copyFileSync_def readFileSync_def writeFileSync_def isDirectory_def
      split: option.splits node.splits sum.splits)

lemma copyFileSync_ok:
  "map_of fs src = Some (File c m) \<Longrightarrow> \<not> isDirectory fs dest \<Longrightarrow>
   copyFileSync now src dest fs = Inr (AList.update dest (File c now) fs)"
  by (simp add: copyFileSync_def readFileSync_def writeFileSync_ok)

lemma install_paths_distinct:
  "destRomPath_of env g src \<noteq> getGameDir env g"
  "destRomPath_of env g src \<noteq> getSavesDir env g"
  "destRomPath_of env g src \<noteq> metadataPath_of env g"
  "metadataPath_of env g \<noteq> getGameDir env g"
  "metadataPath_of env g \<noteq> getSavesDir env g"
  "getSavesDir env g \<noteq> getGameDir env g"
  by (simp_all add: destRomPath_of_def metadataPath_of_def getSavesDir_def path_join_def)

lemma installRom_existing:
  assumes "existsSync fs src"
  shows "installRom env now src custom fs =
     (case copyRomIfNewer now src (destRomPath_of env (or_else custom (sanitizeGameName src)) src)
             (ensureDir now (getSavesDir env (or_else custom (sanitizeGameName src)))
                (ensureDir now (getGameDir env (or_else custom (sanitizeGameName src))) fs)) of
        Inl err \<Rightarrow> Inl err
      | Inr fs3 \<Rightarrow>
          (case writeFileSync now (metadataPath_of env (or_else custom (sanitizeGameName src)))
                  (JSON_stringify_pretty env
                     (game_json (or_else custom (sanitizeGameName src)) src (toISOString env now)))
                  fs3 of
             Inl err \<Rightarrow> Inl err
           | Inr fs4 \<Rightarrow>
               Inr (\<lparr>game_name = or_else custom (sanitizeGameName src),
                     game_romPath = destRomPath_of env (or_else custom (sanitizeGameName src)) src,
                     game_savesDir = getSavesDir env (or_else custom (sanitizeGameName src)),
                     game_installedAt = toISOString env now\<rparr>, fs4)))"
  using assms
  by (simp add: installRom_def Let_def destRomPath_of_def metadataPath_of_def split: sum.splits)

lemma installRom_exists_source:
  "installRom env now src custom fs = Inr r \<Longrightarrow> existsSync fs src"
  by (auto simp add: installRom_def split: if_splits)


lemma second_install:
  assumes src: "existsSync fs1 src"
    and dirs: "existsSync fs1 (getGameDir env g)" "existsSync fs1 (getSavesDir env g)"
    and rom: "existsSync fs1 (destRomPath_of env g src)"
    and meta: "map_of fs1 (metadataPath_of env g) = Some (File j t1)"
    and copyable: "needsCopy fs1 src (destRomPath_of env g src) \<longrightarrow>
                     (\<exists>c m. map_of fs1 src = Some (File c m))
                   \<and> \<not> isDirectory fs1 (destRomPath_of env g src)"
    and g: "g = or_else custom (sanitizeGameName src)"
  shows "\<exists>fs2. installRom env t2 src custom fs1 =
                Inr (\<lparr>game_name = g, game_romPath = destRomPath_of env g src,
                      game_savesDir = getSavesDir env g,
                      game_installedAt = toISOString env t2\<rparr>, fs2)
           \<and> map fst fs2 = map fst fs1
           \<and> (\<forall>p. p \<noteq> destRomPath_of env g src \<and> p \<noteq> metadataPath_of env g
                  \<longrightarrow> map_of fs2 p = map_of fs1 p)
           \<and> map_of fs2 (metadataPath_of env g)
               = Some (File (JSON_stringify_pretty env (game_json g src (toISOString env t2))) t2)
           \<and> (if needsCopy fs1 src (destRomPath_of env g src)
               then \<exists>c m. map_of fs1 src = Some (File c m)
                         \<and> map_of fs2 (destRomPath_of env g src) = Some (File c t2)
               else map_of fs2 (destRomPath_of env g src) = map_of fs1 (destRomPath_of env g src))"
proof -
  let ?rom = "destRomPath_of env g src" and ?mp = "metadataPath_of env g"
  let ?J = "JSON_stringify_pretty env (game_json g src (toISOString env t2))"
  have ens: "ensureDir t2 (getSavesDir env g) (ensureDir t2 (getGameDir env g) fs1) = fs1"
    using dirs by (simp add: ensureDir_existing)
  have d: "?rom \<noteq> ?mp"
    by (rule install_paths_distinct)
  show ?thesis
  proof (cases "needsCopy fs1 src ?rom")
    case True
    with copyable obtain c m where c: "map_of fs1 src = Some (File c m)"
      and nd: "\<not> isDirectory fs1 ?rom"
      by blast
    let ?fs4 = "AList.update ?rom (File c t2) fs1"
    let ?fs2 = "AList.update ?mp (File ?J t2) ?fs4"
    have cp: "copyRomIfNewer t2 src ?rom fs1 = Inr ?fs4"
      using True by (simp add: copyRomIfNewer_eq [OF src] copyFileSync_ok [OF c nd])
    have "\<not> isDirectory ?fs4 ?mp"
      using d meta by (simp add: isDirectory_def update_conv')
    then have wr: "writeFileSync t2 ?mp ?J ?fs4 = Inr ?fs2"
      by (rule writeFileSync_ok)
    have inst: "installRom env t2 src custom fs1 =
                Inr (\<lparr>game_name = g, game_romPath = ?rom, game_savesDir = getSavesDir env g,
                      game_installedAt = toISOString env t2\<rparr>, ?fs2)"
      using cp wr by (simp add: installRom_existing [OF src] g [symmetric] ens)
    have k1: "map fst ?fs4 = map fst fs1"
      by (rule keys_update_existing [OF rom])
    have "existsSync ?fs4 ?mp"
      using meta by (simp add: existsSync_update) (simp add: existsSync_def)
    then have "map fst ?fs2 = map fst ?fs4"
      by (rule keys_update_existing)
    with k1 have keys: "map fst ?fs2 = map fst fs1"
      by simp
    have others: "\<forall>p. p \<noteq> ?rom \<and> p \<noteq> ?mp \<longrightarrow> map_of ?fs2 p = map_of fs1 p"
      by (simp add: update_conv')
    have m2: "map_of ?fs2 ?mp = Some (File ?J t2)"
      by (simp add: update_conv')
    have r2: "map_of ?fs2 ?rom = Some (File c t2)"
      using d by (simp add: update_conv')
    from inst keys others m2 r2 c True show ?thesis
      by (intro exI [of _ ?fs2]) simp
  next
    case False
    let ?fs2 = "AList.update ?mp (File ?J t2) fs1"
    have cp: "copyRomIfNewer t2 src ?rom fs1 = Inr fs1"
      using False by (simp add: copyRomIfNewer_eq [OF src])
    have "\<not> isDirectory fs1 ?mp"
      using meta by (simp add: isDirectory_def)
    then have wr: "writeFileSync t2 ?mp ?J fs1 = Inr ?fs2"
      by (rule writeFileSync_ok)
    have inst: "installRom env t2 src custom fs1 =
                Inr (\<lparr>game_name = g, game_romPath = ?rom, game_savesDir = getSavesDir env g,
                      game_installedAt = toISOString env t2\<rparr>, ?fs2)"
      using cp wr by (simp add: installRom_existing [OF src] g [symmetric] ens)
    have keys: "map fst ?fs2 = map fst fs1"
      using meta by (simp add: keys_update_existing existsSync_def)
    have others: "\<forall>p. p \<noteq> ?rom \<and> p \<noteq> ?mp \<longrightarrow> map_of ?fs2 p = map_of fs1 p"
      by (simp add: update_conv')
    have m2: "map_of ?fs2 ?mp = Some (File ?J t2)"
      by (simp add: update_conv')
    have r2: "map_of ?fs2 ?rom = map_of fs1 ?rom"
      using d by (simp add: update_conv')
    from inst keys others m2 r2 False show ?thesis
      by (intro exI [of _ ?fs2]) simp
  qed
qed

lemma first_install:
  assumes first: "installRom env t1 src custom fs = Inr (g1, fs1)"
    and g: "g = or_else custom (sanitizeGameName src)"
  shows "g1 = \<lparr>game_name = g, game_romPath = destRomPath_of env g src,
               game_savesDir = getSavesDir env g, game_installedAt = toISOString env t1\<rparr>
       \<and> existsSync fs1 (getGameDir env g) \<and> existsSync fs1 (getSavesDir env g)
       \<and> existsSync fs1 (destRomPath_of env g src)
       \<and> map_of fs1 (metadataPath_of env g)
           = Some (File (JSON_stringify_pretty env (game_json g src (toISOString env t1))) t1)
       \<and> (if needsCopy fs src (destRomPath_of env g src)
          then \<exists>c m. map_of fs src = Some (File c m)
                    \<and> map_of fs1 (destRomPath_of env g src) = Some (File c t1)
          else map_of fs1 (destRomPath_of env g src) = map_of fs (destRomPath_of env g src))"
proof -
  let ?rom = "destRomPath_of env g src" and ?mp = "metadataPath_of env g"
  let ?gd = "getGameDir env g" and ?sd = "getSavesDir env g"
  let ?J = "JSON_stringify_pretty env (game_json g src (toISOString env t1))"
  define fsd where "fsd = ensureDir t1 ?sd (ensureDir t1 ?gd fs)"
  have ex: "existsSync fs src"
    by (rule installRom_exists_source [OF first])
  from first obtain fs3 where c1: "copyRomIfNewer t1 src ?rom fsd = Inr fs3"
    and w1: "writeFileSync t1 ?mp ?J fs3 = Inr fs1"
    and g1: "g1 = \<lparr>game_name = g, game_romPath = ?rom, game_savesDir = ?sd,
                    game_installedAt = toISOString env t1\<rparr>"
    unfolding installRom_existing [OF ex] g [symmetric] fsd_def [symmetric]
    by (auto split: sum.splits)
  have fs1: "fs1 = AList.update ?mp (File ?J t1) fs3"
    by (rule writeFileSync_Inr [OF w1])
  have fsd_src: "map_of fsd src = map_of fs src"
    using ex by (auto simp add: fsd_def map_of_ensureDir existsSync_ensureDir)
  have fsd_rom: "map_of fsd ?rom = map_of fs ?rom"
    using install_paths_distinct(1,2) [of env g src] by (simp add: fsd_def map_of_ensureDir)
  have exd: "existsSync fsd src"
    using ex fsd_src by (simp add: existsSync_def)
  have nc: "needsCopy fsd src ?rom = needsCopy fs src ?rom"
    by (simp add: needsCopy_def existsSync_def fsd_src fsd_rom)
  have dirs_d: "existsSync fsd ?gd" "existsSync fsd ?sd"
    by (simp_all add: fsd_def existsSync_ensureDir)
  have d: "?rom \<noteq> ?mp"
    by (rule install_paths_distinct)
  have m1: "map_of fs1 ?mp = Some (File ?J t1)"
    by (simp add: fs1 update_conv')
  have rest: "existsSync fs1 ?gd \<and> existsSync fs1 ?sd \<and> existsSync fs1 ?rom \<and>
         (if needsCopy fs src ?rom
          then \<exists>c m. map_of fs src = Some (File c m) \<and> map_of fs1 ?rom = Some (File c t1)
          else map_of fs1 ?rom = map_of fs ?rom)"
  proof (cases "needsCopy fs src ?rom")
    case True
    with c1 have "copyFileSync t1 src ?rom fsd = Inr fs3"
      by (simp add: copyRomIfNewer_eq [OF exd] nc)
    from copyFileSync_Inr [OF this] obtain c m where
      c: "map_of fsd src = Some (File c m)" and fs3: "fs3 = AList.update ?rom (File c t1) fsd"
      by blast
    show ?thesis
      using True c d dirs_d
      by (simp add: fs1 fs3 existsSync_update update_conv' fsd_src [symmetric])
  next
    case False
    with c1 have fs3: "fs3 = fsd"
      by (simp add: copyRomIfNewer_eq [OF exd] nc)
    have "existsSync fs ?rom"
      using False by (auto simp add: needsCopy_def)
    then have "existsSync fsd ?rom"
      by (simp add: existsSync_def fsd_rom)
    then show ?thesis
      using False d dirs_d
      by (simp add: fs1 fs3 existsSync_update update_conv' fsd_rom)
  qed
  from g1 m1 rest show ?thesis by blast
qed

text \<open>
  C7: when an install has succeeded and the source file is as it was (same content, same
  modification time), a second install of the same path succeeds with the same title. It
  adds no path to the store: the store holds the same paths in the same order, so there is
  still one copy of the ROM and one \<open>game.json\<close>, and only those two can differ (the
  record is rewritten with the new \<open>installedAt\<close>). In each of the two installs the ROM
  is copied exactly when \<open>needsCopy\<close> holds, that is when no destination exists or the
  source is strictly newer than the destination; otherwise the destination is left as it
  is.
\<close>

theorem C7_install_twice_keeps_one_copy_and_one_record:
  assumes first: "installRom env t1 src custom fs = Inr (g1, fs1)"
    and unchanged: "map_of fs1 src = map_of fs src"
  shows "\<exists>fs2. installRom env t2 src custom fs1
                = Inr (g1\<lparr>game_installedAt := toISOString env t2\<rparr>, fs2)
           \<and> map fst fs2 = map fst fs1
           \<and> (\<forall>p. p \<noteq> game_romPath g1 \<and> p \<noteq> metadataPath_of env (game_name g1)
                  \<longrightarrow> map_of fs2 p = map_of fs1 p)
           \<and> map_of fs2 (metadataPath_of env (game_name g1))
               = Some (File (JSON_stringify_pretty env
                               (game_json (game_name g1) src (toISOString env t2))) t2)
           \<and> (if needsCopy fs1 src (game_romPath g1)
               then \<exists>c m. map_of fs1 src = Some (File c m)
                         \<and> map_of fs2 (game_romPath g1) = Some (File c t2)
               else map_of fs2 (game_romPath g1) = map_of fs1 (game_romPath g1))
           \<and> (if needsCopy fs src (game_romPath g1)
               then \<exists>c m. map_of fs src = Some (File c m)
                         \<and> map_of fs1 (game_romPath g1) = Some (File c t1)
               else map_of fs1 (game_romPath g1) = map_of fs (game_romPath g1))"
proof -
  define g where "g = or_else custom (sanitizeGameName src)"
  let ?rom = "destRomPath_of env g src"
  note f = first_install [OF first g_def]
  have g1: "g1 = \<lparr>game_name = g, game_romPath = ?rom, game_savesDir = getSavesDir env g,
                  game_installedAt = toISOString env t1\<rparr>"
    using f by blast
  have dirs: "existsSync fs1 (getGameDir env g)" "existsSync fs1 (getSavesDir env g)"
    and rom: "existsSync fs1 ?rom"
    and meta: "map_of fs1 (metadataPath_of env g)
           = Some (File (JSON_stringify_pretty env (game_json g src (toISOString env t1))) t1)"
    and copy1: "if needsCopy fs src ?rom
          then \<exists>c m. map_of fs src = Some (File c m) \<and> map_of fs1 ?rom = Some (File c t1)
          else map_of fs1 ?rom = map_of fs ?rom"
    using f by blast+
  have src: "existsSync fs1 src"
    using installRom_exists_source [OF first] unchanged by (simp add: existsSync_def)
  have copyable: "needsCopy fs1 src ?rom \<longrightarrow>
                     (\<exists>c m. map_of fs1 src = Some (File c m)) \<and> \<not> isDirectory fs1 ?rom"
  proof (cases "needsCopy fs src ?rom")
    case True
    with copy1 unchanged show ?thesis
      by (auto simp add: isDirectory_def)
  next
    case False
    with copy1 have "map_of fs1 ?rom = map_of fs ?rom"
      by simp
    with unchanged have "needsCopy fs1 src ?rom = needsCopy fs src ?rom"
      by (simp add: needsCopy_def existsSync_def)
    with False show ?thesis by simp
  qed
  from second_install [OF src dirs rom meta copyable g_def, of t2]
  obtain fs2 where
    s2: "installRom env t2 src custom fs1 =
           Inr (\<lparr>game_name = g, game_romPath = ?rom, game_savesDir = getSavesDir env g,
                 game_installedAt = toISOString env t2\<rparr>, fs2)"
    and k: "map fst fs2 = map fst fs1"
    and o: "\<forall>p. p \<noteq> ?rom \<and> p \<noteq> metadataPath_of env g \<longrightarrow> map_of fs2 p = map_of fs1 p"
    and m: "map_of fs2 (metadataPath_of env g)
              = Some (File (JSON_stringify_pretty env (game_json g src (toISOString env t2))) t2)"
    and copy2: "if needsCopy fs1 src ?rom
                then \<exists>c m. map_of fs1 src = Some (File c m) \<and> map_of fs2 ?rom = Some (File c t2)
                else map_of fs2 ?rom = map_of fs1 ?rom"
    by blast
  have r: "g1\<lparr>game_installedAt := toISOString env t2\<rparr>
             = \<lparr>game_name = g, game_romPath = ?rom, game_savesDir = getSavesDir env g,
                game_installedAt = toISOString env t2\<rparr>"
    "game_romPath g1 = ?rom" "game_name g1 = g"
    by (simp_all add: g1)
  show ?thesis
    unfolding r by (intro exI [of _ fs2] conjI) (fact s2 k o m copy2 copy1)+
qed

theorem C7_install_twice_keeps_one_copy_and_one_record_witness:
  "installRom example_env 5 ''/tmp/Pokemon Red (USA).gb'' None
          [(''/tmp/Pokemon Red (USA).gb'', File ''rom'' 1)]
        = Inr (\<lparr>game_name = ''pokemon-red-usa'',
                game_romPath = ''/h/.gameboy-mcp/games/pokemon-red-usa/rom.gb'',
                game_savesDir = ''/h/.gameboy-mcp/games/pokemon-red-usa/saves'',
                game_installedAt = ''t''\<rparr>,
               [(''/tmp/Pokemon Red (USA).gb'', File ''rom'' 1),
                (''/h/.gameboy-mcp/games/pokemon-red-usa'', Dir 5),
                (''/h/.gameboy-mcp/games/pokemon-red-usa/saves'', Dir 5),
                (''/h/.gameboy-mcp/games/pokemon-red-usa/rom.gb'', File ''rom'' 5),
                (''/h/.gameboy-mcp/games/pokemon-red-usa/game.json'', File ''{}'' 5)])
   \<and> map_of [(''/tmp/Pokemon Red (USA).gb'', File ''rom'' 1),
              (''/h/.gameboy-mcp/games/pokemon-red-usa'', Dir 5),
              (''/h/.gameboy-mcp/games/pokemon-red-usa/saves'', Dir 5),
              (''/h/.gameboy-mcp/games/pokemon-red-usa/rom.gb'', File ''rom'' 5),
              (''/h/.gameboy-mcp/games/pokemon-red-usa/game.json'', File ''{}'' 5)]
         ''/tmp/Pokemon Red (USA).gb''
       = map_of [(''/tmp/Pokemon Red (USA).gb'', File ''rom'' 1)] ''/tmp/Pokemon Red (USA).gb''
   \<and> (\<exists>fs2.
         installRom example_env 9 ''/tmp/Pokemon Red (USA).gb'' None
           [(''/tmp/Pokemon Red (USA).gb'', File ''rom'' 1),
            (''/h/.gameboy-mcp/games/pokemon-red-usa'', Dir 5),
            (''/h/.gameboy-mcp/games/pokemon-red-usa/saves'', Dir 5),
            (''/h/.gameboy-mcp/games/pokemon-red-usa/rom.gb'', File ''rom'' 5),
            (''/h/.gameboy-mcp/games/pokemon-red-usa/game.json'', File ''{}'' 5)]
           = Inr (\<lparr>game_name = ''pokemon-red-usa'',
                   game_romPath = ''/h/.gameboy-mcp/games/pokemon-red-usa/rom.gb'',
                   game_savesDir = ''/h/.gameboy-mcp/games/pokemon-red-usa/saves'',
                   game_installedAt = ''t''\<rparr>, fs2)
       \<and> map fst fs2 =
           [''/tmp/Pokemon Red (USA).gb'', ''/h/.gameboy-mcp/games/pokemon-red-usa'',
            ''/h/.gameboy-mcp/games/pokemon-red-usa/saves'',
            ''/h/.gameboy-mcp/games/pokemon-red-usa/rom.gb'',
            ''/h/.gameboy-mcp/games/pokemon-red-usa/game.json'']
       \<and> map_of fs2 ''/h/.gameboy-mcp/games/pokemon-red-usa/rom.gb'' = Some (File ''rom'' 5)
       \<and> map_of fs2 ''/h/.gameboy-mcp/games/pokemon-red-usa/game.json'' = Some (File ''{}'' 9))"
proof -
  have u: "map_of [(''/tmp/Pokemon Red (USA).gb'', File ''rom'' 1),
              (''/h/.gameboy-mcp/games/pokemon-red-usa'', Dir 5),
              (''/h/.gameboy-mcp/games/pokemon-red-usa/saves'', Dir 5),
              (''/h/.gameboy-mcp/games/pokemon-red-usa/rom.gb'', File ''rom'' 5),
              (''/h/.gameboy-mcp/games/pokemon-red-usa/game.json'', File ''{}'' 5)]
         ''/tmp/Pokemon Red (USA).gb''
       = map_of [(''/tmp/Pokemon Red (USA).gb'', File ''rom'' 1)] ''/tmp/Pokemon Red (USA).gb''"
    by simp
  have t: "toISOString example_env 9 = ''t''"
    "JSON_stringify_pretty example_env (game_json n s i) = ''{}''" for n s i
    by (simp_all add: example_env_def game_json_def)
  have mp: "metadataPath_of example_env ''pokemon-red-usa''
              = ''/h/.gameboy-mcp/games/pokemon-red-usa/game.json''"
    by (simp add: metadataPath_of_def getGameDir_def GAMES_DIR_def GAMEBOY_HOME_def
        path_join_def example_env_def)
  have nc: "\<not> needsCopy
              [(''/tmp/Pokemon Red (USA).gb'', File ''rom'' 1),
               (''/h/.gameboy-mcp/games/pokemon-red-usa'', Dir 5),
               (''/h/.gameboy-mcp/games/pokemon-red-usa/saves'', Dir 5),
               (''/h/.gameboy-mcp/games/pokemon-red-usa/rom.gb'', File ''rom'' 5),
               (''/h/.gameboy-mcp/games/pokemon-red-usa/game.json'', File ''{}'' 5)]
              ''/tmp/Pokemon Red (USA).gb'' ''/h/.gameboy-mcp/games/pokemon-red-usa/rom.gb''"
    by (simp add: needsCopy_def existsSync_def)
  let ?G = "\<lparr>game_name = ''pokemon-red-usa'',
             game_romPath = ''/h/.gameboy-mcp/games/pokemon-red-usa/rom.gb'',
             game_savesDir = ''/h/.gameboy-mcp/games/pokemon-red-usa/saves'',
             game_installedAt = ''t''\<rparr>"
  let ?FS1 = "[(''/tmp/Pokemon Red (USA).gb'', File ''rom'' 1),
               (''/h/.gameboy-mcp/games/pokemon-red-usa'', Dir 5),
               (''/h/.gameboy-mcp/games/pokemon-red-usa/saves'', Dir 5),
               (''/h/.gameboy-mcp/games/pokemon-red-usa/rom.gb'', File ''rom'' 5),
               (''/h/.gameboy-mcp/games/pokemon-red-usa/game.json'', File ''{}'' 5)]"
  note T = C7_install_twice_keeps_one_copy_and_one_record [OF install_pokemon_example u, of 9]
  obtain fs2 where
    a: "installRom example_env 9 ''/tmp/Pokemon Red (USA).gb'' None ?FS1
          = Inr (?G\<lparr>game_installedAt := toISOString example_env 9\<rparr>, fs2)"
    and k: "map fst fs2 = map fst ?FS1"
    and m: "map_of fs2 (metadataPath_of example_env (game_name ?G))
              = Some (File (JSON_stringify_pretty example_env
                              (game_json (game_name ?G) ''/tmp/Pokemon Red (USA).gb''
                                 (toISOString example_env 9))) 9)"
    and c: "if needsCopy ?FS1 ''/tmp/Pokemon Red (USA).gb'' (game_romPath ?G)
            then \<exists>c m. map_of ?FS1 ''/tmp/Pokemon Red (USA).gb'' = Some (File c m)
                      \<and> map_of fs2 (game_romPath ?G) = Some (File c 9)
            else map_of fs2 (game_romPath ?G) = map_of ?FS1 (game_romPath ?G)"
    by (insert T, elim exE conjE, rule that; assumption)
  have a': "installRom example_env 9 ''/tmp/Pokemon Red (USA).gb'' None ?FS1 = Inr (?G, fs2)"
    using a by (simp add: t)
  have k': "map fst fs2 =
           [''/tmp/Pokemon Red (USA).gb'', ''/h/.gameboy-mcp/games/pokemon-red-usa'',
            ''/h/.gameboy-mcp/games/pokemon-red-usa/saves'',
            ''/h/.gameboy-mcp/games/pokemon-red-usa/rom.gb'',
            ''/h/.gameboy-mcp/games/pokemon-red-usa/game.json'']"
    using k by simp
  have m': "map_of fs2 ''/h/.gameboy-mcp/games/pokemon-red-usa/game.json'' = Some (File ''{}'' 9)"
    using m by (simp add: t mp)
  have c': "map_of fs2 ''/h/.gameboy-mcp/games/pokemon-red-usa/rom.gb'' = Some (File ''rom'' 5)"
    using c nc by simp
  show ?thesis
    by (intro conjI exI [of _ fs2]; fact install_pokemon_example u a' k' m' c')
qed

end
